theory Spec2Isabelle
  imports Main
begin

section \<open>Sistema Gestione Biblioteca: the MongoDB setup script\<close>

text \<open>
  The script \<^verbatim>\<open>setup_biblioteca.py\<close> is a linear pipeline of calls into the MongoDB
  driver: create four collections with a \<^verbatim>\<open>$jsonSchema\<close> validator each, create the
  indexes, insert the sample data, count and join the result, export every collection
  as JSON. The script's own functions are embedded one by one in the second half of the
  definitions. The driver and the server are not part of the script: they are modelled
  first, as an in-memory store that follows the documented behaviour of the calls the
  script makes (ordered \<^verbatim>\<open>insert_many\<close>, unique indexes, schema validation with
  \<^verbatim>\<open>validationAction: error\<close>, \<^verbatim>\<open>$lookup\<close>/\<^verbatim>\<open>$unwind\<close>/\<^verbatim>\<open>$project\<close>).
\<close>

subsection \<open>Values and documents\<close>

text \<open>
  The values that occur in the script and in its four schemas: strings, integers,
  booleans, dates, ObjectIds and null. A date is what BSON stores, the number of
  milliseconds since 1970-01-01T00:00:00 UTC; an ObjectId is its 96-bit value as a
  natural number. A document is a Python dict, kept as the list of its items in order.
\<close>

datatype bson = BStr string | BInt int | BBool bool | BDate int | BOid nat | BNull

type_synonym document = "(string \<times> bson) list"

datatype bson_type = T_string | T_int | T_long | T_bool | T_date | T_objectId | T_null

fun type_of :: "bson \<Rightarrow> bson_type" where
  "type_of (BStr s) = T_string"
| "type_of (BInt i) = (if - 2147483648 \<le> i \<and> i \<le> 2147483647 then T_int else T_long)"
| "type_of (BBool b) = T_bool"
| "type_of (BDate t) = T_date"
| "type_of (BOid n) = T_objectId"
| "type_of BNull = T_null"

text \<open>\<^verbatim>\<open>isinstance(value, ObjectId)\<close> and \<^verbatim>\<open>isinstance(value, datetime)\<close>.\<close>

fun is_ObjectId :: "bson \<Rightarrow> bool" where
  "is_ObjectId (BOid n) = True"
| "is_ObjectId v = False"

fun is_datetime :: "bson \<Rightarrow> bool" where
  "is_datetime (BDate t) = True"
| "is_datetime v = False"

text \<open>A Python integer is encoded as int32 or int64; a larger one cannot be sent.\<close>

fun encodable_value :: "bson \<Rightarrow> bool" where
  "encodable_value (BInt i) = (- 9223372036854775808 \<le> i \<and> i \<le> 9223372036854775807)"
| "encodable_value v = True"

definition encodable :: "document \<Rightarrow> bool" where
  "encodable d = list_all (\<lambda>kv. encodable_value (snd kv)) d"

subsection \<open>Dates\<close>

text \<open>
  \<^verbatim>\<open>datetime(y, m, d)\<close> as milliseconds since the epoch (the driver reads a naive
  datetime as UTC), through the day number of a civil date in the proleptic Gregorian
  calendar, and \<^verbatim>\<open>timedelta(days=n)\<close>.
\<close>

definition days_from_civil :: "int \<Rightarrow> int \<Rightarrow> int \<Rightarrow> int" where
  "days_from_civil y m d =
     (let y' = (if m \<le> 2 then y - 1 else y);
          era = y' div 400;
          yoe = y' - era * 400;
          doy = (153 * (if 2 < m then m - 3 else m + 9) + 2) div 5 + d - 1;
          doe = yoe * 365 + yoe div 4 - yoe div 100 + doy
      in era * 146097 + doe - 719468)"

definition datetime :: "int \<Rightarrow> int \<Rightarrow> int \<Rightarrow> int" where
  "datetime y m d = days_from_civil y m d * 86400000"

definition timedelta_days :: "int \<Rightarrow> int" where
  "timedelta_days n = n * 86400000"

text \<open>The way back: the civil date (year, month, day) of a day number.\<close>

definition civil_from_days :: "int \<Rightarrow> int \<times> int \<times> int" where
  "civil_from_days z0 =
     (let z = z0 + 719468;
          era = z div 146097;
          doe = z - era * 146097;
          yoe = (doe - doe div 1460 + doe div 36524 - doe div 146096) div 365;
          doy = doe - (365 * yoe + yoe div 4 - yoe div 100);
          mp = (5 * doy + 2) div 153;
          d = doy - (153 * mp + 2) div 5 + 1;
          m = (if mp < 10 then mp + 3 else mp - 9);
          y = yoe + era * 400
      in (if m \<le> 2 then y + 1 else y, m, d))"

text \<open>
  Python's \<^verbatim>\<open>datetime\<close> covers the years 1 to 9999; the driver raises when it decodes
  a stored date outside that range.
\<close>

definition datetime_in_range :: "int \<Rightarrow> bool" where
  "datetime_in_range t = (datetime 1 1 1 \<le> t \<and> t < datetime 10000 1 1)"

subsection \<open>Strings of values\<close>

definition digit_char :: "nat \<Rightarrow> char" where
  "digit_char n = ''0123456789abcdef'' ! (n mod 16)"

text \<open>\<open>k\<close> digits of \<open>n\<close> in base \<open>b\<close>, zero-padded: \<^verbatim>\<open>%0kd\<close> and \<^verbatim>\<open>%0kx\<close>.\<close>

fun pad :: "nat \<Rightarrow> nat \<Rightarrow> nat \<Rightarrow> string" where
  "pad b 0 n = []"
| "pad b (Suc k) n = pad b k (n div b) @ [digit_char (n mod b)]"

fun str_nat :: "nat \<Rightarrow> string" where
  "str_nat n = (if n < 10 then [digit_char n] else str_nat (n div 10) @ [digit_char (n mod 10)])"

definition str_int :: "int \<Rightarrow> string" where
  "str_int i = (if i < 0 then CHR ''-'' # str_nat (nat (- i)) else str_nat (nat i))"

text \<open>\<^verbatim>\<open>str(ObjectId)\<close>: the 24 hexadecimal digits of the 12 bytes.\<close>

definition str_ObjectId :: "nat \<Rightarrow> string" where
  "str_ObjectId n = pad 16 24 n"

text \<open>
  \<^verbatim>\<open>datetime.isoformat(sep)\<close> of a date read back from the store (millisecond
  precision): \<^verbatim>\<open>YYYY-MM-DDTHH:MM:SS\<close>, followed by \<^verbatim>\<open>.ffffff\<close> when the microsecond
  field is not zero. \<^verbatim>\<open>str(datetime)\<close> is \<^verbatim>\<open>isoformat(' ')\<close>.
\<close>

definition isoformat_sep :: "char \<Rightarrow> int \<Rightarrow> string" where
  "isoformat_sep sep t =
     (let days = t div 86400000;
          ms = nat (t mod 86400000);
          (y, m, d) = civil_from_days days;
          hh = ms div 3600000;
          mi = (ms div 60000) mod 60;
          ss = (ms div 1000) mod 60;
          us = (ms mod 1000) * 1000
      in pad 10 4 (nat y) @ ''-'' @ pad 10 2 (nat m) @ ''-'' @ pad 10 2 (nat d) @ [sep]
         @ pad 10 2 hh @ '':'' @ pad 10 2 mi @ '':'' @ pad 10 2 ss
         @ (if us = 0 then [] else ''.'' @ pad 10 6 us))"

definition isoformat :: "int \<Rightarrow> string" where
  "isoformat t = isoformat_sep (CHR ''T'') t"

text \<open>Python's \<^verbatim>\<open>str(value)\<close>.\<close>

fun py_str :: "bson \<Rightarrow> string" where
  "py_str (BStr s) = s"
| "py_str (BInt i) = str_int i"
| "py_str (BBool b) = (if b then ''True'' else ''False'')"
| "py_str (BDate t) = isoformat_sep (CHR '' '') t"
| "py_str (BOid n) = str_ObjectId n"
| "py_str BNull = ''None''"

subsection \<open>Regular expressions of the schemas\<close>

text \<open>
  The two \<^verbatim>\<open>pattern\<close> strings of the script. The server matches them with PCRE, where
  an unanchored pattern may match anywhere, \<^verbatim>\<open>^\<close> is the start of the string and \<^verbatim>\<open>$\<close>
  is the end of the string or the position before a final newline.
\<close>

definition digit :: "char \<Rightarrow> bool" where
  "digit c = (c \<in> set ''0123456789'')"

definition alpha :: "char \<Rightarrow> bool" where
  "alpha c = (c \<in> set ''abcdefghijklmnopqrstuvwxyzABCDEFGHIJKLMNOPQRSTUVWXYZ'')"

text \<open>The class \<^verbatim>\<open>[0-9-]\<close>.\<close>

definition isbn_char :: "char \<Rightarrow> bool" where
  "isbn_char c = (digit c \<or> c = CHR ''-'')"

text \<open>The class \<^verbatim>\<open>[\w\.-]\<close>: letters, digits, underscore, dot, hyphen.\<close>

definition mail_char :: "char \<Rightarrow> bool" where
  "mail_char c = (alpha c \<or> digit c \<or> c = CHR ''_'' \<or> c = CHR ''.'' \<or> c = CHR ''-'')"

text \<open>\<^verbatim>\<open>^...$\<close> around a pattern for the whole string.\<close>

definition anchored :: "(string \<Rightarrow> bool) \<Rightarrow> string \<Rightarrow> bool" where
  "anchored whole s =
     (whole s \<or> (s \<noteq> [] \<and> last s = CHR 0x0A \<and> whole (butlast s)))"

text \<open>\<^verbatim>\<open>[0-9-]{10,17}\<close>\<close>

definition isbn_body :: "string \<Rightarrow> bool" where
  "isbn_body s = (10 \<le> length s \<and> length s \<le> 17 \<and> list_all isbn_char s)"

text \<open>
  \<^verbatim>\<open>[\w\.-]+@[\w\.-]+\.[a-zA-Z]{2,}\<close>: position \<open>i\<close> holds the at sign and position
  \<open>j\<close> the dot before the final letters.
\<close>

definition email_split :: "string \<Rightarrow> nat \<Rightarrow> nat \<Rightarrow> bool" where
  "email_split s i j =
     (i < j \<and> j < length s \<and> s ! i = CHR ''@'' \<and> s ! j = CHR ''.''
      \<and> 0 < i \<and> list_all mail_char (take i s)
      \<and> Suc i < j \<and> list_all mail_char (take (j - Suc i) (drop (Suc i) s))
      \<and> 2 \<le> length s - Suc j \<and> list_all alpha (drop (Suc j) s))"

definition email_body :: "string \<Rightarrow> bool" where
  "email_body s = list_ex (\<lambda>i. list_ex (\<lambda>j. email_split s i j) [0..<length s]) [0..<length s]"

datatype regex = Isbn_pattern | Email_pattern

fun matches :: "regex \<Rightarrow> string \<Rightarrow> bool" where
  "matches Isbn_pattern s = anchored isbn_body s"
| "matches Email_pattern s = anchored email_body s"

subsection \<open>JSON Schema validators\<close>

text \<open>
  The keywords the script uses. A keyword that speaks about strings or numbers holds of
  every value of another type; \<^verbatim>\<open>bsonType\<close> with a list accepts any of the listed types.
\<close>

datatype keyword =
    BsonType "bson_type list"
  | MinLength nat
  | MaxLength nat
  | Pattern regex
  | Minimum int
  | Maximum int
  | Enum "string list"

fun check_keyword :: "keyword \<Rightarrow> bson \<Rightarrow> bool" where
  "check_keyword (BsonType ts) v = (type_of v \<in> set ts)"
| "check_keyword (MinLength n) v = (case v of BStr s \<Rightarrow> n \<le> length s | _ \<Rightarrow> True)"
| "check_keyword (MaxLength n) v = (case v of BStr s \<Rightarrow> length s \<le> n | _ \<Rightarrow> True)"
| "check_keyword (Pattern r) v = (case v of BStr s \<Rightarrow> matches r s | _ \<Rightarrow> True)"
| "check_keyword (Minimum m) v = (case v of BInt i \<Rightarrow> m \<le> i | _ \<Rightarrow> True)"
| "check_keyword (Maximum m) v = (case v of BInt i \<Rightarrow> i \<le> m | _ \<Rightarrow> True)"
| "check_keyword (Enum xs) v = (case v of BStr s \<Rightarrow> s \<in> set xs | _ \<Rightarrow> False)"

record schema =
  required :: "string list"
  properties :: "(string \<times> keyword list) list"

definition check_property :: "document \<Rightarrow> string \<times> keyword list \<Rightarrow> bool" where
  "check_property d p =
     (case map_of d (fst p) of
        None \<Rightarrow> True
      | Some v \<Rightarrow> list_all (\<lambda>kw. check_keyword kw v) (snd p))"

definition validates :: "schema \<Rightarrow> document \<Rightarrow> bool" where
  "validates sch d =
     (list_all (\<lambda>k. k \<in> fst ` set d) (required sch)
      \<and> list_all (check_property d) (properties sch))"

subsection \<open>The store\<close>

text \<open>
  The exceptions that reach the script. \<^verbatim>\<open>except Exception\<close> catches all of them but
  \<^verbatim>\<open>KeyboardInterrupt\<close> and \<^verbatim>\<open>SystemExit\<close>.
\<close>

datatype exn =
    ConnectionFailure | OperationFailure | CollectionInvalid | BulkWriteError
  | DuplicateKeyError | InvalidBSON | OverflowError | TypeError | OSError
  | KeyError | IndexError | KeyboardInterrupt | SystemExit nat

fun is_Exception :: "exn \<Rightarrow> bool" where
  "is_Exception KeyboardInterrupt = False"
| "is_Exception (SystemExit n) = False"
| "is_Exception e = True"

datatype direction = ASCENDING | DESCENDING

record index =
  keys :: "(string \<times> direction) list"
  unique :: bool

record collection =
  documents :: "document list"
  validator :: "schema option"
  indexes :: "index list"

text \<open>A collection that the server creates on the first write to its name.\<close>

definition new_collection :: collection where
  "new_collection = \<lparr>documents = [], validator = None, indexes = []\<rparr>"

text \<open>What the script prints, one constructor for each \<^verbatim>\<open>print\<close> that depends on the run.\<close>

datatype event =
    Connected | ConnectError
  | DbDropped | DropWarning
  | CollectionCreated string | CollectionWarning string
  | IndexesCreated string | IndexWarning
  | Inserted string nat | InsertError string
  | Count string nat
  | QueryResults nat | QueryExample bson bson | QueryError
  | FileCreated string nat | ExportError string
  | SetupCompleted | Interrupted | SetupError exn

datatype json = JString string | JNumber int | JBool bool | JNull

text \<open>
  The world the script runs in: the database \<^verbatim>\<open>biblioteca\<close> on the server, the next
  ObjectId the driver generates, the outcome of each call to the outside that is still
  to come (\<open>None\<close>: the call goes through; \<open>Some e\<close>: it raises \<open>e\<close> for a reason outside
  the model, such as a lost connection or a full disk; no entry left: it goes through),
  the readings of \<^verbatim>\<open>datetime.now()\<close>, the console and the files written.
\<close>

record world =
  db :: "string \<Rightarrow> collection option"
  next_oid :: nat
  faults :: "exn option list"
  clock :: "nat \<Rightarrow> int"
  ticks :: nat
  console :: "event list"
  files :: "string \<Rightarrow> (string \<times> json) list list option"

definition env_call :: "world \<Rightarrow> exn option \<times> world" where
  "env_call w = (case faults w of [] \<Rightarrow> (None, w) | f # fs \<Rightarrow> (f, w\<lparr>faults := fs\<rparr>))"

definition print_ev :: "event \<Rightarrow> world \<Rightarrow> world" where
  "print_ev e w = w\<lparr>console := console w @ [e]\<rparr>"

definition datetime_now :: "world \<Rightarrow> int \<times> world" where
  "datetime_now w = (clock w (ticks w), w\<lparr>ticks := Suc (ticks w)\<rparr>)"

definition get_collection :: "world \<Rightarrow> string \<Rightarrow> collection" where
  "get_collection w name = (case db w name of None \<Rightarrow> new_collection | Some c \<Rightarrow> c)"

definition put_collection :: "string \<Rightarrow> collection \<Rightarrow> world \<Rightarrow> world" where
  "put_collection name c w = w\<lparr>db := (db w)(name \<mapsto> c)\<rparr>"

text \<open>A field of a document for matching: a missing field counts as null.\<close>

definition field :: "document \<Rightarrow> string \<Rightarrow> bson" where
  "field d k = (case map_of d k of None \<Rightarrow> BNull | Some v \<Rightarrow> v)"

definition index_key :: "index \<Rightarrow> document \<Rightarrow> bson list" where
  "index_key ix d = map (\<lambda>kd. field d (fst kd)) (keys ix)"

definition violates_unique :: "index \<Rightarrow> document list \<Rightarrow> document \<Rightarrow> bool" where
  "violates_unique ix ds d = (unique ix \<and> index_key ix d \<in> set (map (index_key ix) ds))"

text \<open>
  The server takes a document when it passes the collection's validator, its
  \<^verbatim>\<open>_id\<close> is new and no unique index holds its key already.
\<close>

definition accepts :: "collection \<Rightarrow> document \<Rightarrow> bool" where
  "accepts c d =
     ((case validator c of None \<Rightarrow> True | Some sch \<Rightarrow> validates sch d)
      \<and> field d ''_id'' \<notin> set (map (\<lambda>x. field x ''_id'') (documents c))
      \<and> list_all (\<lambda>ix. \<not> violates_unique ix (documents c) d) (indexes c))"

text \<open>
  An ordered bulk insert: the documents go in one after the other, and the first one the
  server refuses ends the batch with \<^verbatim>\<open>BulkWriteError\<close>; those before it stay.
\<close>

fun insert_ordered :: "collection \<Rightarrow> document list \<Rightarrow> exn option \<times> collection" where
  "insert_ordered c [] = (None, c)"
| "insert_ordered c (d # ds) =
     (if accepts c d then insert_ordered (c\<lparr>documents := documents c @ [d]\<rparr>) ds
      else (Some BulkWriteError, c))"

text \<open>The driver gives every document without \<^verbatim>\<open>_id\<close> a fresh ObjectId, in front.\<close>

fun assign_ids :: "nat \<Rightarrow> document list \<Rightarrow> document list" where
  "assign_ids n [] = []"
| "assign_ids n (d # ds) =
     (if ''_id'' \<in> fst ` set d then d else (''_id'', BOid n) # d) # assign_ids (Suc n) ds"

subsection \<open>The driver calls of the script\<close>

definition ping :: "world \<Rightarrow> (exn + unit) \<times> world" where
  "ping w = (case env_call w of (Some e, w1) \<Rightarrow> (Inl e, w1) | (None, w1) \<Rightarrow> (Inr (), w1))"

definition client_drop_database :: "world \<Rightarrow> (exn + unit) \<times> world" where
  "client_drop_database w =
     (case env_call w of
        (Some e, w1) \<Rightarrow> (Inl e, w1)
      | (None, w1) \<Rightarrow> (Inr (), w1\<lparr>db := (\<lambda>name. None)\<rparr>))"

definition create_collection :: "string \<Rightarrow> schema \<Rightarrow> world \<Rightarrow> (exn + unit) \<times> world" where
  "create_collection name sch w =
     (case env_call w of
        (Some e, w1) \<Rightarrow> (Inl e, w1)
      | (None, w1) \<Rightarrow>
          (case db w1 name of
             Some c \<Rightarrow> (Inl CollectionInvalid, w1)
           | None \<Rightarrow>
               (Inr (), put_collection name
                  \<lparr>documents = [], validator = Some sch, indexes = []\<rparr> w1)))"

text \<open>
  \<^verbatim>\<open>create_index\<close>: an index that exists with the same keys and options is left as it is,
  one with the same keys and other options is a conflict, and a unique index cannot be
  built over documents that share a key.
\<close>

definition create_index ::
  "string \<Rightarrow> (string \<times> direction) list \<Rightarrow> bool \<Rightarrow> world \<Rightarrow> (exn + unit) \<times> world" where
  "create_index name ks u w =
     (case env_call w of
        (Some e, w1) \<Rightarrow> (Inl e, w1)
      | (None, w1) \<Rightarrow>
          (let c = get_collection w1 name; ix = \<lparr>keys = ks, unique = u\<rparr>
           in if ix \<in> set (indexes c) then (Inr (), w1)
              else if ks \<in> set (map keys (indexes c)) then (Inl OperationFailure, w1)
              else if u \<and> \<not> distinct (map (index_key ix) (documents c))
                then (Inl DuplicateKeyError, w1)
              else (Inr (), put_collection name (c\<lparr>indexes := indexes c @ [ix]\<rparr>) w1)))"

text \<open>
  \<^verbatim>\<open>insert_many(documents)\<close> with the default \<^verbatim>\<open>ordered=True\<close>; on success the result
  holds the \<^verbatim>\<open>_id\<close> of every document, in order.
\<close>

definition insert_many :: "string \<Rightarrow> document list \<Rightarrow> world \<Rightarrow> (exn + bson list) \<times> world" where
  "insert_many name ds w =
     (if ds = [] then (Inl TypeError, w)
      else
        (let ds' = assign_ids (next_oid w) ds;
             w0 = w\<lparr>next_oid := next_oid w + length ds\<rparr>
         in if \<not> list_all encodable ds' then (Inl OverflowError, w0)
            else
              (case env_call w0 of
                 (Some e, w1) \<Rightarrow> (Inl e, w1)
               | (None, w1) \<Rightarrow>
                   (case insert_ordered (get_collection w1 name) ds' of
                      (Some e, c) \<Rightarrow> (Inl e, put_collection name c w1)
                    | (None, c) \<Rightarrow>
                        (Inr (map (\<lambda>d. field d ''_id'') ds'), put_collection name c w1)))))"

definition count_documents :: "string \<Rightarrow> world \<Rightarrow> (exn + nat) \<times> world" where
  "count_documents name w =
     (case env_call w of
        (Some e, w1) \<Rightarrow> (Inl e, w1)
      | (None, w1) \<Rightarrow> (Inr (length (documents (get_collection w1 name))), w1))"

text \<open>
  \<^verbatim>\<open>find()\<close> with no filter returns every document of the collection; decoding a date
  that Python cannot represent raises.
\<close>

definition decodable :: "document \<Rightarrow> bool" where
  "decodable d = list_all (\<lambda>kv. case snd kv of BDate t \<Rightarrow> datetime_in_range t | _ \<Rightarrow> True) d"

definition find :: "string \<Rightarrow> world \<Rightarrow> (exn + document list) \<times> world" where
  "find name w =
     (case env_call w of
        (Some e, w1) \<Rightarrow> (Inl e, w1)
      | (None, w1) \<Rightarrow>
          (let ds = documents (get_collection w1 name)
           in if list_all decodable ds then (Inr ds, w1) else (Inl InvalidBSON, w1)))"

subsection \<open>The aggregation pipeline of the validation\<close>

text \<open>
  \<^verbatim>\<open>$lookup\<close> from \<^verbatim>\<open>autori\<close> with \<^verbatim>\<open>localField: autore_id\<close>, \<^verbatim>\<open>foreignField: _id\<close>,
  \<^verbatim>\<open>as: autore\<close>: every book with the list of the authors whose \<^verbatim>\<open>_id\<close> equals its
  \<^verbatim>\<open>autore_id\<close>.
\<close>

definition lookup_stage :: "document list \<Rightarrow> document list \<Rightarrow> (document \<times> document list) list" where
  "lookup_stage autori libri =
     map (\<lambda>b. (b, filter (\<lambda>a. field a ''_id'' = field b ''autore_id'') autori)) libri"

text \<open>
  \<^verbatim>\<open>$unwind: "$autore"\<close>: one output per element of the array, none for an empty array.
\<close>

definition unwind_stage :: "(document \<times> document list) list \<Rightarrow> (document \<times> document) list" where
  "unwind_stage xs = concat (map (\<lambda>x. map (\<lambda>a. (fst x, a)) (snd x)) xs)"

text \<open>
  \<^verbatim>\<open>$concat\<close> goes through its operands in order: a null or missing operand makes the
  result null, an operand of another type than string is an error.
\<close>

fun concat_op :: "string \<Rightarrow> bson option list \<Rightarrow> exn + bson" where
  "concat_op acc [] = Inr (BStr acc)"
| "concat_op acc (None # vs) = Inr BNull"
| "concat_op acc (Some BNull # vs) = Inr BNull"
| "concat_op acc (Some (BStr s) # vs) = concat_op (acc @ s) vs"
| "concat_op acc (Some v # vs) = Inl OperationFailure"

text \<open>
  \<^verbatim>\<open>$project\<close>: \<^verbatim>\<open>_id\<close> (kept by default), \<^verbatim>\<open>titolo\<close> and \<^verbatim>\<open>copie_disponibili\<close> where the
  book has them, and the computed \<^verbatim>\<open>autore_nome\<close>.
\<close>

definition project_stage :: "document \<times> document \<Rightarrow> exn + document" where
  "project_stage x =
     (case concat_op [] [map_of (snd x) ''nome'', Some (BStr '' ''), map_of (snd x) ''cognome''] of
        Inl e \<Rightarrow> Inl e
      | Inr v \<Rightarrow>
          Inr (filter (\<lambda>kv. fst kv \<in> set [''_id'', ''titolo'', ''copie_disponibili'']) (fst x)
               @ [(''autore_nome'', v)]))"

fun project_all :: "(document \<times> document) list \<Rightarrow> exn + document list" where
  "project_all [] = Inr []"
| "project_all (x # xs) =
     (case project_stage x of
        Inl e \<Rightarrow> Inl e
      | Inr d \<Rightarrow> (case project_all xs of Inl e \<Rightarrow> Inl e | Inr ds \<Rightarrow> Inr (d # ds)))"

definition pipeline :: "document list \<Rightarrow> document list \<Rightarrow> exn + document list" where
  "pipeline autori libri = project_all (unwind_stage (lookup_stage autori libri))"

text \<open>\<^verbatim>\<open>list(self.db.libri.aggregate(pipeline))\<close>\<close>

definition aggregate_libri :: "world \<Rightarrow> (exn + document list) \<times> world" where
  "aggregate_libri w =
     (case env_call w of
        (Some e, w1) \<Rightarrow> (Inl e, w1)
      | (None, w1) \<Rightarrow>
          (pipeline (documents (get_collection w1 ''autori''))
                    (documents (get_collection w1 ''libri'')), w1))"

subsection \<open>The script: connection and reset\<close>

text \<open>
  \<^verbatim>\<open>BibliotecaSetup.__init__\<close>: the ping is the one call that can fail here; a
  \<^verbatim>\<open>ConnectionFailure\<close> ends the process with \<^verbatim>\<open>sys.exit(1)\<close>, any other exception is
  not caught.
\<close>

definition BibliotecaSetup_init :: "string \<Rightarrow> world \<Rightarrow> (exn + unit) \<times> world" where
  "BibliotecaSetup_init connection_string w =
     (case ping w of
        (Inr u, w1) \<Rightarrow> (Inr (), print_ev Connected w1)
      | (Inl e, w1) \<Rightarrow>
          (if e = ConnectionFailure then (Inl (SystemExit 1), print_ev ConnectError w1)
           else (Inl e, w1)))"

definition drop_database :: "world \<Rightarrow> (exn + unit) \<times> world" where
  "drop_database w =
     (case client_drop_database w of
        (Inr u, w1) \<Rightarrow> (Inr (), print_ev DbDropped w1)
      | (Inl e, w1) \<Rightarrow>
          (if is_Exception e then (Inr (), print_ev DropWarning w1) else (Inl e, w1)))"

subsection \<open>The script: create\_collections\<close>

definition autori_validator :: schema where
  "autori_validator =
     \<lparr>required = [''nome'', ''cognome'', ''data_nascita''],
      properties =
        [(''nome'', [BsonType [T_string], MinLength 1]),
         (''cognome'', [BsonType [T_string], MinLength 1]),
         (''data_nascita'', [BsonType [T_date]]),
         (''data_morte'', [BsonType [T_date, T_null]]),
         (''nazionalita'', [BsonType [T_string]]),
         (''biografia'', [BsonType [T_string]])]\<rparr>"

definition libri_validator :: schema where
  "libri_validator =
     \<lparr>required = [''titolo'', ''autore_id'', ''isbn'', ''anno_pubblicazione'', ''copie_disponibili''],
      properties =
        [(''titolo'', [BsonType [T_string], MinLength 1]),
         (''autore_id'', [BsonType [T_objectId]]),
         (''isbn'', [BsonType [T_string], Pattern Isbn_pattern]),
         (''anno_pubblicazione'', [BsonType [T_int], Minimum 1000, Maximum 2030]),
         (''genere'', [BsonType [T_string]]),
         (''editore'', [BsonType [T_string]]),
         (''pagine'', [BsonType [T_int], Minimum 1]),
         (''copie_totali'', [BsonType [T_int], Minimum 1]),
         (''copie_disponibili'', [BsonType [T_int], Minimum 0]),
         (''descrizione'', [BsonType [T_string]])]\<rparr>"

definition utenti_validator :: schema where
  "utenti_validator =
     \<lparr>required = [''nome'', ''cognome'', ''email'', ''codice_fiscale'', ''data_registrazione''],
      properties =
        [(''nome'', [BsonType [T_string], MinLength 1]),
         (''cognome'', [BsonType [T_string], MinLength 1]),
         (''email'', [BsonType [T_string], Pattern Email_pattern]),
         (''codice_fiscale'', [BsonType [T_string], MinLength 16, MaxLength 16]),
         (''telefono'', [BsonType [T_string]]),
         (''data_registrazione'', [BsonType [T_date]]),
         (''attivo'', [BsonType [T_bool]])]\<rparr>"

definition prestiti_validator :: schema where
  "prestiti_validator =
     \<lparr>required = [''libro_id'', ''utente_id'', ''data_prestito'', ''data_scadenza'',
                  ''utente_nome'', ''utente_email''],
      properties =
        [(''libro_id'', [BsonType [T_objectId]]),
         (''utente_id'', [BsonType [T_objectId]]),
         (''data_prestito'', [BsonType [T_date]]),
         (''data_scadenza'', [BsonType [T_date]]),
         (''data_restituzione'', [BsonType [T_date, T_null]]),
         (''utente_nome'', [BsonType [T_string]]),
         (''utente_email'', [BsonType [T_string]]),
         (''note'', [BsonType [T_string]]),
         (''stato'', [Enum [''attivo'', ''restituito'', ''scaduto'']])]\<rparr>"

definition collections :: "(string \<times> schema) list" where
  "collections =
     [(''autori'', autori_validator), (''libri'', libri_validator),
      (''utenti'', utenti_validator), (''prestiti'', prestiti_validator)]"

text \<open>The loop over \<^verbatim>\<open>collections\<close>, with its \<^verbatim>\<open>try\<close> around each creation.\<close>

fun create_each :: "(string \<times> schema) list \<Rightarrow> world \<Rightarrow> (exn + unit) \<times> world" where
  "create_each [] w = (Inr (), w)"
| "create_each (cv # rest) w =
     (case create_collection (fst cv) (snd cv) w of
        (Inr u, w1) \<Rightarrow> create_each rest (print_ev (CollectionCreated (fst cv)) w1)
      | (Inl e, w1) \<Rightarrow>
          (if is_Exception e then create_each rest (print_ev (CollectionWarning (fst cv)) w1)
           else (Inl e, w1)))"

definition create_collections :: "world \<Rightarrow> (exn + unit) \<times> world" where
  "create_collections w = create_each collections w"

subsection \<open>The script: create\_indexes\<close>

text \<open>
  The body of the one \<^verbatim>\<open>try\<close> block, statement by statement: the first exception ends
  it, and what follows in the block is not run.
\<close>

datatype index_step = CreateIndex string "(string \<times> direction) list" bool | Print event

definition index_steps :: "index_step list" where
  "index_steps =
     [CreateIndex ''autori'' [(''nome'', ASCENDING), (''cognome'', ASCENDING)] False,
      CreateIndex ''autori'' [(''cognome'', ASCENDING)] False,
      Print (IndexesCreated ''autori''),
      CreateIndex ''libri'' [(''autore_id'', ASCENDING)] False,
      CreateIndex ''libri'' [(''isbn'', ASCENDING)] True,
      CreateIndex ''libri'' [(''titolo'', ASCENDING)] False,
      CreateIndex ''libri'' [(''genere'', ASCENDING)] False,
      Print (IndexesCreated ''libri''),
      CreateIndex ''utenti'' [(''email'', ASCENDING)] True,
      CreateIndex ''utenti'' [(''codice_fiscale'', ASCENDING)] True,
      CreateIndex ''utenti'' [(''cognome'', ASCENDING)] False,
      Print (IndexesCreated ''utenti''),
      CreateIndex ''prestiti'' [(''utente_id'', ASCENDING)] False,
      CreateIndex ''prestiti'' [(''libro_id'', ASCENDING)] False,
      CreateIndex ''prestiti'' [(''data_prestito'', DESCENDING)] False,
      CreateIndex ''prestiti'' [(''data_scadenza'', ASCENDING)] False,
      CreateIndex ''prestiti'' [(''stato'', ASCENDING)] False,
      Print (IndexesCreated ''prestiti'')]"

fun run_index_steps :: "index_step list \<Rightarrow> world \<Rightarrow> (exn + unit) \<times> world" where
  "run_index_steps [] w = (Inr (), w)"
| "run_index_steps (Print e # rest) w = run_index_steps rest (print_ev e w)"
| "run_index_steps (CreateIndex name ks u # rest) w =
     (case create_index name ks u w of
        (Inr x, w1) \<Rightarrow> run_index_steps rest w1
      | (Inl e, w1) \<Rightarrow>
          (if is_Exception e then (Inr (), print_ev IndexWarning w1) else (Inl e, w1)))"

definition create_indexes :: "world \<Rightarrow> (exn + unit) \<times> world" where
  "create_indexes w = run_index_steps index_steps w"

subsection \<open>The script: load\_sample\_data\<close>

definition autori_data :: "document list" where
  "autori_data =
     [[(''nome'', BStr ''Alessandro''), (''cognome'', BStr ''Manzoni''),
       (''data_nascita'', BDate (datetime 1785 3 7)),
       (''data_morte'', BDate (datetime 1873 5 22)),
       (''nazionalita'', BStr ''Italiana''),
       (''biografia'', BStr ''Scrittore e poeta italiano del romanticismo'')],
      [(''nome'', BStr ''Italo''), (''cognome'', BStr ''Calvino''),
       (''data_nascita'', BDate (datetime 1923 10 15)),
       (''data_morte'', BDate (datetime 1985 9 19)),
       (''nazionalita'', BStr ''Italiana''),
       (''biografia'', BStr ''Scrittore e giornalista italiano'')],
      [(''nome'', BStr ''Umberto''), (''cognome'', BStr ''Eco''),
       (''data_nascita'', BDate (datetime 1932 1 5)),
       (''data_morte'', BDate (datetime 2016 2 19)),
       (''nazionalita'', BStr ''Italiana''),
       (''biografia'', BStr ''Scrittore, filosofo e semiologo italiano'')]]"

definition libri_data :: "bson list \<Rightarrow> document list" where
  "libri_data autori_ids =
     [[(''titolo'', BStr ''I Promessi Sposi''), (''autore_id'', autori_ids ! 0),
       (''isbn'', BStr ''978-88-17-12345-1''), (''anno_pubblicazione'', BInt 1827),
       (''genere'', BStr ''Romanzo storico''), (''editore'', BStr ''Feltrinelli''),
       (''pagine'', BInt 720), (''copie_totali'', BInt 5), (''copie_disponibili'', BInt 3),
       (''descrizione'', BStr ''Capolavoro della letteratura italiana'')],
      [(''titolo'', BStr ''Il Barone Rampante''), (''autore_id'', autori_ids ! 1),
       (''isbn'', BStr ''978-88-06-12345-2''), (''anno_pubblicazione'', BInt 1957),
       (''genere'', BStr ''Narrativa''), (''editore'', BStr ''Einaudi''),
       (''pagine'', BInt 280), (''copie_totali'', BInt 3), (''copie_disponibili'', BInt 2),
       (''descrizione'', BStr ''Secondo romanzo della trilogia I nostri antenati'')],
      [(''titolo'', BStr ''Il Nome della Rosa''), (''autore_id'', autori_ids ! 2),
       (''isbn'', BStr ''978-88-45-12345-3''), (''anno_pubblicazione'', BInt 1980),
       (''genere'', BStr ''Giallo storico''), (''editore'', BStr ''Bompiani''),
       (''pagine'', BInt 550), (''copie_totali'', BInt 4), (''copie_disponibili'', BInt 1),
       (''descrizione'', BStr ''Romanzo giallo ambientato in un monastero medievale'')]]"

definition utenti_data :: "document list" where
  "utenti_data =
     [[(''nome'', BStr ''Mario''), (''cognome'', BStr ''Rossi''),
       (''email'', BStr ''mario.rossi@email.com''),
       (''codice_fiscale'', BStr ''RSSMRA80A01H501Z''),
       (''telefono'', BStr ''+39 320 1234567''),
       (''data_registrazione'', BDate (datetime 2023 1 15)), (''attivo'', BBool True)],
      [(''nome'', BStr ''Giulia''), (''cognome'', BStr ''Bianchi''),
       (''email'', BStr ''giulia.bianchi@email.com''),
       (''codice_fiscale'', BStr ''BNCGLI85B42F205X''),
       (''telefono'', BStr ''+39 345 7890123''),
       (''data_registrazione'', BDate (datetime 2023 3 22)), (''attivo'', BBool True)],
      [(''nome'', BStr ''Luca''), (''cognome'', BStr ''Verdi''),
       (''email'', BStr ''luca.verdi@email.com''),
       (''codice_fiscale'', BStr ''VRDLCU90C15G224Y''),
       (''telefono'', BStr ''+39 366 4567890''),
       (''data_registrazione'', BDate (datetime 2023 5 10)), (''attivo'', BBool True)]]"

text \<open>
  \<^verbatim>\<open>prestiti_data\<close>, given the ids of the books and of the patrons, \<^verbatim>\<open>base_date\<close> and
  the two later readings of \<^verbatim>\<open>datetime.now()\<close>.
\<close>

definition prestiti_data :: "bson list \<Rightarrow> bson list \<Rightarrow> int \<Rightarrow> int \<Rightarrow> int \<Rightarrow> document list" where
  "prestiti_data libri_ids utenti_ids base_date now1 now2 =
     [[(''libro_id'', libri_ids ! 0), (''utente_id'', utenti_ids ! 0),
       (''data_prestito'', BDate base_date),
       (''data_scadenza'', BDate (base_date + timedelta_days 30)),
       (''data_restituzione'', BDate (base_date + timedelta_days 25)),
       (''utente_nome'', BStr ''Mario Rossi''),
       (''utente_email'', BStr ''mario.rossi@email.com''),
       (''stato'', BStr ''restituito''),
       (''note'', BStr ''Restituito in perfette condizioni'')],
      [(''libro_id'', libri_ids ! 2), (''utente_id'', utenti_ids ! 1),
       (''data_prestito'', BDate (now1 - timedelta_days 10)),
       (''data_scadenza'', BDate (now2 + timedelta_days 20)),
       (''data_restituzione'', BNull),
       (''utente_nome'', BStr ''Giulia Bianchi''),
       (''utente_email'', BStr ''giulia.bianchi@email.com''),
       (''stato'', BStr ''attivo''),
       (''note'', BStr ''Prestito in corso'')]]"

text \<open>
  The four stages of \<^verbatim>\<open>load_sample_data\<close>, last first. Each is the rest of the function
  from its \<^verbatim>\<open>try\<close> on: an exception of the batch insert prints the error and, but for
  the last stage, returns. An index into a list of ids that is too short raises
  \<^verbatim>\<open>IndexError\<close> outside every \<^verbatim>\<open>try\<close>, and so does, with \<^verbatim>\<open>OverflowError\<close>, a sum
  or difference of a date and a \<^verbatim>\<open>timedelta\<close> that leaves the years 1 to 9999. A
  reading of the clock is a date of that range, so \<^verbatim>\<open>base_date\<close> plus 30 or 25 days,
  between \<^verbatim>\<open>base_date\<close> and the reading, is one too.
\<close>

definition load_prestiti :: "bson list \<Rightarrow> bson list \<Rightarrow> world \<Rightarrow> (exn + unit) \<times> world" where
  "load_prestiti libri_ids utenti_ids w =
     (let (now0, w0) = datetime_now w; base_date = now0 - timedelta_days 30
      in if \<not> datetime_in_range base_date then (Inl OverflowError, w0)
         else if length libri_ids < 3 \<or> length utenti_ids < 2 then (Inl IndexError, w0)
         else
           (let (now1, w1) = datetime_now w0
            in if \<not> datetime_in_range (now1 - timedelta_days 10) then (Inl OverflowError, w1)
               else
                 (let (now2, w2) = datetime_now w1
                  in if \<not> datetime_in_range (now2 + timedelta_days 20)
                       then (Inl OverflowError, w2)
                     else
                       (case insert_many ''prestiti''
                               (prestiti_data libri_ids utenti_ids base_date now1 now2) w2 of
                          (Inr ids, w3) \<Rightarrow>
                            (Inr (), print_ev (Inserted ''prestiti'' (length ids)) w3)
                        | (Inl e, w3) \<Rightarrow>
                            (if is_Exception e
                               then (Inr (), print_ev (InsertError ''prestiti'') w3)
                             else (Inl e, w3))))))"

definition load_utenti :: "bson list \<Rightarrow> world \<Rightarrow> (exn + unit) \<times> world" where
  "load_utenti libri_ids w =
     (case insert_many ''utenti'' utenti_data w of
        (Inr utenti_ids, w1) \<Rightarrow>
          load_prestiti libri_ids utenti_ids (print_ev (Inserted ''utenti'' (length utenti_ids)) w1)
      | (Inl e, w1) \<Rightarrow>
          (if is_Exception e then (Inr (), print_ev (InsertError ''utenti'') w1)
           else (Inl e, w1)))"

definition load_libri :: "bson list \<Rightarrow> world \<Rightarrow> (exn + unit) \<times> world" where
  "load_libri autori_ids w =
     (if length autori_ids < 3 then (Inl IndexError, w)
      else
        (case insert_many ''libri'' (libri_data autori_ids) w of
           (Inr libri_ids, w1) \<Rightarrow>
             load_utenti libri_ids (print_ev (Inserted ''libri'' (length libri_ids)) w1)
         | (Inl e, w1) \<Rightarrow>
             (if is_Exception e then (Inr (), print_ev (InsertError ''libri'') w1)
              else (Inl e, w1))))"

definition load_sample_data :: "world \<Rightarrow> (exn + unit) \<times> world" where
  "load_sample_data w =
     (case insert_many ''autori'' autori_data w of
        (Inr autori_ids, w1) \<Rightarrow>
          load_libri autori_ids (print_ev (Inserted ''autori'' (length autori_ids)) w1)
      | (Inl e, w1) \<Rightarrow>
          (if is_Exception e then (Inr (), print_ev (InsertError ''autori'') w1)
           else (Inl e, w1)))"

subsection \<open>The script: validate\_setup\<close>

text \<open>The dict \<^verbatim>\<open>counts\<close>: four calls of \<^verbatim>\<open>count_documents\<close>, outside every \<^verbatim>\<open>try\<close>.\<close>

fun count_each :: "string list \<Rightarrow> world \<Rightarrow> (exn + (string \<times> nat) list) \<times> world" where
  "count_each [] w = (Inr [], w)"
| "count_each (name # names) w =
     (case count_documents name w of
        (Inl e, w1) \<Rightarrow> (Inl e, w1)
      | (Inr n, w1) \<Rightarrow>
          (case count_each names w1 of
             (Inl e, w2) \<Rightarrow> (Inl e, w2)
           | (Inr cs, w2) \<Rightarrow> (Inr ((name, n) # cs), w2)))"

text \<open>
  The \<^verbatim>\<open>try\<close> block of the test query: the aggregation, the number of results, and the
  first result, where a missing key raises \<^verbatim>\<open>KeyError\<close> inside the block.
\<close>

definition test_query :: "world \<Rightarrow> (exn + unit) \<times> world" where
  "test_query w =
     (case aggregate_libri w of
        (Inl e, w1) \<Rightarrow>
          (if is_Exception e then (Inr (), print_ev QueryError w1) else (Inl e, w1))
      | (Inr libri_con_autori, w1) \<Rightarrow>
          (let w2 = print_ev (QueryResults (length libri_con_autori)) w1
           in case libri_con_autori of
                [] \<Rightarrow> (Inr (), w2)
              | primo # others \<Rightarrow>
                  (case (map_of primo ''titolo'', map_of primo ''autore_nome'') of
                     (Some t, Some a) \<Rightarrow> (Inr (), print_ev (QueryExample t a) w2)
                   | _ \<Rightarrow> (Inr (), print_ev QueryError w2))))"

definition validate_setup :: "world \<Rightarrow> (exn + unit) \<times> world" where
  "validate_setup w =
     (case count_each [''autori'', ''libri'', ''utenti'', ''prestiti''] w of
        (Inl e, w1) \<Rightarrow> (Inl e, w1)
      | (Inr counts, w1) \<Rightarrow>
          test_query (fold (\<lambda>cn. print_ev (Count (fst cn) (snd cn))) counts w1))"

subsection \<open>The script: export\_sample\_json\<close>

text \<open>\<^verbatim>\<open>doc[key] = value\<close> on a dict: an existing key keeps its place.\<close>

fun dict_set :: "document \<Rightarrow> string \<Rightarrow> bson \<Rightarrow> document" where
  "dict_set [] k v = [(k, v)]"
| "dict_set (kv # d) k v = (if fst kv = k then (k, v) # d else kv # dict_set d k v)"

text \<open>
  The body of \<^verbatim>\<open>for key, value in doc.items()\<close>: the new value of one item. The loop
  assigns to keys that exist, so it is a map over the items.
\<close>

fun convert_value :: "bson \<Rightarrow> bson" where
  "convert_value (BOid n) = BStr (py_str (BOid n))"
| "convert_value (BDate t) = BStr (isoformat t)"
| "convert_value v = v"

definition convert_document :: "document \<Rightarrow> document" where
  "convert_document doc =
     (let doc1 = (case map_of doc ''_id'' of
                    None \<Rightarrow> doc
                  | Some i \<Rightarrow> dict_set doc ''_id'' (BStr (py_str i)))
      in map (\<lambda>kv. (fst kv, convert_value (snd kv))) doc1)"

text \<open>
  \<^verbatim>\<open>json.dump(..., default=str)\<close>: strings, numbers, booleans and \<^verbatim>\<open>None\<close> have a JSON
  form; for any other value the encoder calls \<^verbatim>\<open>default\<close>, which is \<^verbatim>\<open>str\<close>.
\<close>

fun json_value :: "bson \<Rightarrow> json" where
  "json_value (BStr s) = JString s"
| "json_value (BInt i) = JNumber i"
| "json_value (BBool b) = JBool b"
| "json_value BNull = JNull"
| "json_value v = JString (py_str v)"

definition json_dump :: "document list \<Rightarrow> (string \<times> json) list list" where
  "json_dump docs = map (map (\<lambda>kv. (fst kv, json_value (snd kv)))) docs"

definition makedirs :: "world \<Rightarrow> (exn + unit) \<times> world" where
  "makedirs w = (case env_call w of (Some e, w1) \<Rightarrow> (Inl e, w1) | (None, w1) \<Rightarrow> (Inr (), w1))"

definition write_json :: "string \<Rightarrow> document list \<Rightarrow> world \<Rightarrow> (exn + unit) \<times> world" where
  "write_json filename docs w =
     (case env_call w of
        (Some e, w1) \<Rightarrow> (Inl e, w1)
      | (None, w1) \<Rightarrow> (Inr (), w1\<lparr>files := (files w1)(filename \<mapsto> json_dump docs)\<rparr>))"

definition export_collection :: "string \<Rightarrow> world \<Rightarrow> (exn + unit) \<times> world" where
  "export_collection collection_name w =
     (case find collection_name w of
        (Inl e, w1) \<Rightarrow>
          (if is_Exception e then (Inr (), print_ev (ExportError collection_name) w1)
           else (Inl e, w1))
      | (Inr found, w1) \<Rightarrow>
          (let docs = map convert_document found;
               filename = ''data/'' @ collection_name @ ''_sample.json''
           in case write_json filename docs w1 of
                (Inl e, w2) \<Rightarrow>
                  (if is_Exception e then (Inr (), print_ev (ExportError collection_name) w2)
                   else (Inl e, w2))
              | (Inr u, w2) \<Rightarrow> (Inr (), print_ev (FileCreated filename (length docs)) w2)))"

fun export_each :: "string list \<Rightarrow> world \<Rightarrow> (exn + unit) \<times> world" where
  "export_each [] w = (Inr (), w)"
| "export_each (name # names) w =
     (case export_collection name w of
        (Inl e, w1) \<Rightarrow> (Inl e, w1)
      | (Inr u, w1) \<Rightarrow> export_each names w1)"

definition export_sample_json :: "world \<Rightarrow> (exn + unit) \<times> world" where
  "export_sample_json w =
     (case makedirs w of
        (Inl e, w1) \<Rightarrow> (Inl e, w1)
      | (Inr u, w1) \<Rightarrow> export_each [''autori'', ''libri'', ''utenti'', ''prestiti''] w1)"

subsection \<open>The script: run\_complete\_setup and main\<close>

text \<open>One statement after the other: an exception that a stage lets through ends the run.\<close>

definition and_then ::
  "(exn + unit) \<times> world \<Rightarrow> (world \<Rightarrow> (exn + unit) \<times> world) \<Rightarrow> (exn + unit) \<times> world" where
  "and_then r f = (case r of (Inl e, w) \<Rightarrow> (Inl e, w) | (Inr u, w) \<Rightarrow> f w)"

definition run_complete_setup :: "bool \<Rightarrow> world \<Rightarrow> (exn + unit) \<times> world" where
  "run_complete_setup reset w =
     and_then (and_then (and_then (and_then (and_then (and_then
       (if reset then drop_database w else (Inr (), w))
       create_collections)
       create_indexes)
       load_sample_data)
       validate_setup)
       export_sample_json)
       (\<lambda>w'. (Inr (), print_ev SetupCompleted w'))"

record args =
  reset :: bool
  connection :: string

text \<open>
  \<^verbatim>\<open>main\<close> returns the exit status of the process: 0 when the setup returns, the status
  of \<^verbatim>\<open>sys.exit\<close>, and 1 from either handler.
\<close>

definition main :: "args \<Rightarrow> world \<Rightarrow> nat \<times> world" where
  "main a w =
     (case and_then (BibliotecaSetup_init (connection a) w) (run_complete_setup (reset a)) of
        (Inr u, w1) \<Rightarrow> (0, w1)
      | (Inl (SystemExit n), w1) \<Rightarrow> (n, w1)
      | (Inl KeyboardInterrupt, w1) \<Rightarrow> (1, print_ev Interrupted w1)
      | (Inl e, w1) \<Rightarrow> (1, print_ev (SetupError e) w1))"

subsection \<open>The database after the setup stages\<close>

text \<open>
  Names for the states that the proofs below pass through: the indexes each collection
  has once \<^verbatim>\<open>create_indexes\<close> went through, and the database with the four validated,
  indexed collections holding given documents.
\<close>

definition autori_indexes :: "index list" where
  "autori_indexes =
     [\<lparr>keys = [(''nome'', ASCENDING), (''cognome'', ASCENDING)], unique = False\<rparr>,
      \<lparr>keys = [(''cognome'', ASCENDING)], unique = False\<rparr>]"

definition libri_indexes :: "index list" where
  "libri_indexes =
     [\<lparr>keys = [(''autore_id'', ASCENDING)], unique = False\<rparr>,
      \<lparr>keys = [(''isbn'', ASCENDING)], unique = True\<rparr>,
      \<lparr>keys = [(''titolo'', ASCENDING)], unique = False\<rparr>,
      \<lparr>keys = [(''genere'', ASCENDING)], unique = False\<rparr>]"

definition utenti_indexes :: "index list" where
  "utenti_indexes =
     [\<lparr>keys = [(''email'', ASCENDING)], unique = True\<rparr>,
      \<lparr>keys = [(''codice_fiscale'', ASCENDING)], unique = True\<rparr>,
      \<lparr>keys = [(''cognome'', ASCENDING)], unique = False\<rparr>]"

definition prestiti_indexes :: "index list" where
  "prestiti_indexes =
     [\<lparr>keys = [(''utente_id'', ASCENDING)], unique = False\<rparr>,
      \<lparr>keys = [(''libro_id'', ASCENDING)], unique = False\<rparr>,
      \<lparr>keys = [(''data_prestito'', DESCENDING)], unique = False\<rparr>,
      \<lparr>keys = [(''data_scadenza'', ASCENDING)], unique = False\<rparr>,
      \<lparr>keys = [(''stato'', ASCENDING)], unique = False\<rparr>]"

definition biblioteca ::
  "document list \<Rightarrow> document list \<Rightarrow> document list \<Rightarrow> document list
   \<Rightarrow> string \<Rightarrow> collection option" where
  "biblioteca a l u p =
     (\<lambda>name.
        if name = ''autori''
          then Some \<lparr>documents = a, validator = Some autori_validator, indexes = autori_indexes\<rparr>
        else if name = ''libri''
          then Some \<lparr>documents = l, validator = Some libri_validator, indexes = libri_indexes\<rparr>
        else if name = ''utenti''
          then Some \<lparr>documents = u, validator = Some utenti_validator, indexes = utenti_indexes\<rparr>
        else if name = ''prestiti''
          then Some \<lparr>documents = p, validator = Some prestiti_validator,
                     indexes = prestiti_indexes\<rparr>
        else None)"

text \<open>The sample documents as stored, with the ids the driver gave them from \<open>n\<close> on.\<close>

definition autori_docs :: "nat \<Rightarrow> document list" where
  "autori_docs n = assign_ids n autori_data"

definition libri_docs :: "nat \<Rightarrow> document list" where
  "libri_docs n = assign_ids (n + 3) (libri_data [BOid n, BOid (n + 1), BOid (n + 2)])"

definition utenti_docs :: "nat \<Rightarrow> document list" where
  "utenti_docs n = assign_ids (n + 6) utenti_data"

definition prestiti_docs :: "nat \<Rightarrow> int \<Rightarrow> int \<Rightarrow> int \<Rightarrow> document list" where
  "prestiti_docs n t0 t1 t2 =
     assign_ids (n + 9)
       (prestiti_data [BOid (n + 3), BOid (n + 4), BOid (n + 5)]
                      [BOid (n + 6), BOid (n + 7), BOid (n + 8)]
                      (t0 - timedelta_days 30) t1 t2)"

subsection \<open>Example worlds\<close>

text \<open>
  A fresh server with no database, no call failing and a clock that starts on
  2024-06-01; the same server once the four collections and their indexes exist; and
  the server after a first complete run.
\<close>

definition empty_world :: world where
  "empty_world =
     \<lparr>db = (\<lambda>name. None), next_oid = 0, faults = [],
      clock = (\<lambda>i. datetime 2024 6 1 + int i), ticks = 0, console = [],
      files = (\<lambda>name. None)\<rparr>"

definition created_world :: world where
  "created_world = empty_world\<lparr>db := biblioteca [] [] [] []\<rparr>"

definition seeded_world :: world where
  "seeded_world =
     empty_world\<lparr>db := biblioteca (autori_docs 0) (libri_docs 0) (utenti_docs 0)
                           (prestiti_docs 0 (datetime 2024 6 1) (datetime 2024 6 1 + 1)
                              (datetime 2024 6 1 + 2)),
                 next_oid := 11, ticks := 3\<rparr>"

text \<open>
  A server where index creation never went through: \<^verbatim>\<open>libri\<close> and \<^verbatim>\<open>utenti\<close> as
  \<^verbatim>\<open>create_collections\<close> makes them, with their validators and no index, holding the
  seed books and patrons of a first run; the ids of that run are used up.
\<close>

definition unindexed_world :: world where
  "unindexed_world =
     empty_world\<lparr>db := (\<lambda>name.
        if name = ''libri''
          then Some \<lparr>documents = libri_docs 0, validator = Some libri_validator, indexes = []\<rparr>
        else if name = ''utenti''
          then Some \<lparr>documents = utenti_docs 0, validator = Some utenti_validator, indexes = []\<rparr>
        else None),
       next_oid := 14\<rparr>"

section \<open>Properties\<close>

subsection \<open>Schema creation and index building on an empty database\<close>

lemma env_call_nil: "faults w = [] \<Longrightarrow> env_call w = (None, w)"
  by (simp add: env_call_def)

lemmas setup_defs = create_collections_def collections_def create_collection_def
  create_indexes_def index_steps_def create_index_def get_collection_def new_collection_def
  env_call_def print_ev_def put_collection_def and_then_def

lemma setup_empty:
  assumes "db w = (\<lambda>name. None)" "faults w = []"
  shows "and_then (create_collections w) create_indexes =
    (Inr (), w\<lparr>db := biblioteca [] [] [] [],
            console := console w @ [CollectionCreated ''autori'', CollectionCreated ''libri'',
                        CollectionCreated ''utenti'', CollectionCreated ''prestiti'',
                        IndexesCreated ''autori'', IndexesCreated ''libri'',
                        IndexesCreated ''utenti'', IndexesCreated ''prestiti'']\<rparr>)"
  using assms
  apply (simp add: setup_defs Let_def)
  apply (rule arg_cong[where f="\<lambda>d. w\<lparr>db := d, console := _\<rparr>"])
  apply (rule ext)
  apply (simp add: biblioteca_def autori_indexes_def libri_indexes_def utenti_indexes_def prestiti_indexes_def)
  done

subsection \<open>The sample data passes the validators\<close>

lemma email_bodyI:
  assumes "email_split s i j"
  shows "matches Email_pattern s"
proof -
  from assms have ij: "i < length s" "j < length s"
    by (simp_all add: email_split_def)
  have "\<exists>i\<in>set [0..<length s]. \<exists>j\<in>set [0..<length s]. email_split s i j"
    apply (rule bexI[where x=i])
     apply (rule bexI[where x=j])
      apply (rule assms)
    using ij by simp_all
  then show ?thesis
    by (simp add: anchored_def email_body_def list_ex_iff)
qed

lemma email_mario: "matches Email_pattern ''mario.rossi@email.com''"
  by (rule email_bodyI[of _ 11 17]) (simp add: email_split_def mail_char_def alpha_def digit_def)

lemma email_giulia: "matches Email_pattern ''giulia.bianchi@email.com''"
  by (rule email_bodyI[of _ 14 20]) (simp add: email_split_def mail_char_def alpha_def digit_def)

lemma email_luca: "matches Email_pattern ''luca.verdi@email.com''"
  by (rule email_bodyI[of _ 10 16]) (simp add: email_split_def mail_char_def alpha_def digit_def)

lemma isbn_seed:
  "matches Isbn_pattern ''978-88-17-12345-1''"
  "matches Isbn_pattern ''978-88-06-12345-2''"
  "matches Isbn_pattern ''978-88-45-12345-3''"
  by (simp_all add: anchored_def isbn_body_def isbn_char_def digit_def)

lemma validates_autori: "list_all (validates autori_validator) (autori_docs n)"
  by (simp add: autori_docs_def autori_data_def validates_def autori_validator_def check_property_def)

lemma validates_libri: "list_all (validates libri_validator) (libri_docs n)"
  by (simp add: libri_docs_def libri_data_def validates_def libri_validator_def check_property_def isbn_seed del: matches.simps)

lemma validates_utenti: "list_all (validates utenti_validator) (utenti_docs n)"
  by (simp add: utenti_docs_def utenti_data_def validates_def utenti_validator_def check_property_def
       email_mario email_giulia email_luca del: matches.simps)

lemma validates_prestiti: "list_all (validates prestiti_validator) (prestiti_docs n t0 t1 t2)"
  by (simp add: prestiti_docs_def prestiti_data_def validates_def prestiti_validator_def check_property_def)

lemma biblioteca_upd:
  "(biblioteca a l u p)(''autori'' \<mapsto> \<lparr>documents = a', validator = Some autori_validator, indexes = autori_indexes\<rparr>) = biblioteca a' l u p"
  "(biblioteca a l u p)(''libri'' \<mapsto> \<lparr>documents = l', validator = Some libri_validator, indexes = libri_indexes\<rparr>) = biblioteca a l' u p"
  "(biblioteca a l u p)(''utenti'' \<mapsto> \<lparr>documents = u', validator = Some utenti_validator, indexes = utenti_indexes\<rparr>) = biblioteca a l u' p"
  "(biblioteca a l u p)(''prestiti'' \<mapsto> \<lparr>documents = p', validator = Some prestiti_validator, indexes = prestiti_indexes\<rparr>) = biblioteca a l u p'"
  by (rule ext, simp add: biblioteca_def)+

lemma biblioteca_at:
  "biblioteca a l u p ''autori'' = Some \<lparr>documents = a, validator = Some autori_validator, indexes = autori_indexes\<rparr>"
  "biblioteca a l u p ''libri'' = Some \<lparr>documents = l, validator = Some libri_validator, indexes = libri_indexes\<rparr>"
  "biblioteca a l u p ''utenti'' = Some \<lparr>documents = u, validator = Some utenti_validator, indexes = utenti_indexes\<rparr>"
  "biblioteca a l u p ''prestiti'' = Some \<lparr>documents = p, validator = Some prestiti_validator, indexes = prestiti_indexes\<rparr>"
  by (simp_all add: biblioteca_def)

lemma insert_many_success:
  assumes "faults w = []" "ds \<noteq> []" "list_all encodable (assign_ids (next_oid w) ds)"
    and "insert_ordered (get_collection w name) (assign_ids (next_oid w) ds) = (None, c)"
  shows "insert_many name ds w =
    (Inr (map (\<lambda>d. field d ''_id'') (assign_ids (next_oid w) ds)),
     put_collection name c (w\<lparr>next_oid := next_oid w + length ds\<rparr>))"
  using assms by (simp add: insert_many_def Let_def env_call_def get_collection_def)

lemma insert_many_reject:
  assumes "faults w = []" "ds \<noteq> []" "list_all encodable (assign_ids (next_oid w) ds)"
    and "insert_ordered (get_collection w name) (assign_ids (next_oid w) ds) = (Some e, c)"
  shows "insert_many name ds w =
    (Inl e, put_collection name c (w\<lparr>next_oid := next_oid w + length ds\<rparr>))"
  using assms by (simp add: insert_many_def Let_def env_call_def get_collection_def)

lemmas accept_defs = accepts_def violates_unique_def index_key_def field_def

lemma ordered_autori:
  "insert_ordered \<lparr>documents = [], validator = Some autori_validator, indexes = autori_indexes\<rparr>
     (autori_docs n)
   = (None, \<lparr>documents = autori_docs n, validator = Some autori_validator, indexes = autori_indexes\<rparr>)"
  by (simp add: autori_docs_def autori_data_def accept_defs validates_def check_property_def
        autori_validator_def autori_indexes_def)

lemma ordered_libri:
  "insert_ordered \<lparr>documents = [], validator = Some libri_validator, indexes = libri_indexes\<rparr>
     (libri_docs n)
   = (None, \<lparr>documents = libri_docs n, validator = Some libri_validator, indexes = libri_indexes\<rparr>)"
  by (simp add: libri_docs_def libri_data_def accept_defs validates_def check_property_def
        libri_validator_def libri_indexes_def isbn_seed del: matches.simps)

lemma ordered_utenti:
  "insert_ordered \<lparr>documents = [], validator = Some utenti_validator, indexes = utenti_indexes\<rparr>
     (utenti_docs n)
   = (None, \<lparr>documents = utenti_docs n, validator = Some utenti_validator, indexes = utenti_indexes\<rparr>)"
  by (simp add: utenti_docs_def utenti_data_def accept_defs validates_def check_property_def
        utenti_validator_def utenti_indexes_def email_mario email_giulia email_luca del: matches.simps)

lemma ordered_prestiti:
  "insert_ordered \<lparr>documents = [], validator = Some prestiti_validator, indexes = prestiti_indexes\<rparr>
     (prestiti_docs n t0 t1 t2)
   = (None, \<lparr>documents = prestiti_docs n t0 t1 t2, validator = Some prestiti_validator,
             indexes = prestiti_indexes\<rparr>)"
  by (simp add: prestiti_docs_def prestiti_data_def accept_defs validates_def check_property_def
        prestiti_validator_def prestiti_indexes_def)

lemma encodable_seed:
  "list_all encodable (autori_docs n)" "list_all encodable (libri_docs n)"
  "list_all encodable (utenti_docs n)" "list_all encodable (prestiti_docs n t0 t1 t2)"
  by (simp_all add: autori_docs_def libri_docs_def utenti_docs_def prestiti_docs_def
        autori_data_def libri_data_def utenti_data_def prestiti_data_def encodable_def)

lemma ids_seed:
  "map (\<lambda>d. field d ''_id'') (autori_docs n) = [BOid n, BOid (n + 1), BOid (n + 2)]"
  "map (\<lambda>d. field d ''_id'') (libri_docs n) = [BOid (n + 3), BOid (n + 4), BOid (n + 5)]"
  "map (\<lambda>d. field d ''_id'') (utenti_docs n) = [BOid (n + 6), BOid (n + 7), BOid (n + 8)]"
  "map (\<lambda>d. field d ''_id'') (prestiti_docs n t0 t1 t2) = [BOid (n + 9), BOid (n + 10)]"
  by (simp_all add: autori_docs_def libri_docs_def utenti_docs_def prestiti_docs_def
        autori_data_def libri_data_def utenti_data_def prestiti_data_def field_def)

lemma ordered_autori_more:
  assumes "BOid m \<notin> set (map (\<lambda>x. field x ''_id'') a)"
    "BOid (Suc m) \<notin> set (map (\<lambda>x. field x ''_id'') a)"
    "BOid (Suc (Suc m)) \<notin> set (map (\<lambda>x. field x ''_id'') a)"
  shows "insert_ordered \<lparr>documents = a, validator = Some autori_validator, indexes = autori_indexes\<rparr>
     (autori_docs m)
   = (None, \<lparr>documents = a @ autori_docs m, validator = Some autori_validator,
             indexes = autori_indexes\<rparr>)"
  using assms
  by (simp add: autori_docs_def autori_data_def accept_defs validates_def check_property_def
        autori_validator_def autori_indexes_def)

lemma insert_autori:
  assumes "db w = biblioteca a l u p" "faults w = []"
    "BOid (next_oid w) \<notin> set (map (\<lambda>x. field x ''_id'') a)"
    "BOid (Suc (next_oid w)) \<notin> set (map (\<lambda>x. field x ''_id'') a)"
    "BOid (Suc (Suc (next_oid w))) \<notin> set (map (\<lambda>x. field x ''_id'') a)"
  shows "insert_many ''autori'' autori_data w =
     (Inr [BOid (next_oid w), BOid (next_oid w + 1), BOid (next_oid w + 2)],
      w\<lparr>db := biblioteca (a @ autori_docs (next_oid w)) l u p, next_oid := next_oid w + 3\<rparr>)"
proof -
  have "insert_many ''autori'' autori_data w =
    (Inr (map (\<lambda>d. field d ''_id'') (assign_ids (next_oid w) autori_data)),
     put_collection ''autori''
       \<lparr>documents = a @ autori_docs (next_oid w), validator = Some autori_validator,
         indexes = autori_indexes\<rparr>
       (w\<lparr>next_oid := next_oid w + length autori_data\<rparr>))"
  proof (rule insert_many_success)
    show "faults w = []" by (rule assms)
    show "autori_data \<noteq> []" by (simp add: autori_data_def)
    show "list_all encodable (assign_ids (next_oid w) autori_data)"
      using encodable_seed(1)[of "next_oid w"] by (simp add: autori_docs_def)
    show "insert_ordered (get_collection w ''autori'') (assign_ids (next_oid w) autori_data) =
      (None, \<lparr>documents = a @ autori_docs (next_oid w), validator = Some autori_validator,
         indexes = autori_indexes\<rparr>)"
      using ordered_autori_more[OF assms(3-5)]
      by (simp add: get_collection_def assms(1) biblioteca_at autori_docs_def)
  qed
  moreover have "length autori_data = 3" by (simp add: autori_data_def)
  ultimately show ?thesis
    using ids_seed(1)[of "next_oid w"]
    by (simp add: autori_docs_def put_collection_def assms(1) biblioteca_upd)
qed

lemma insert_libri:
  assumes "db w = biblioteca a [] u p" "faults w = []" "next_oid w = n + 3"
  shows "insert_many ''libri'' (libri_data [BOid n, BOid (n + 1), BOid (n + 2)]) w =
     (Inr [BOid (n + 3), BOid (n + 4), BOid (n + 5)],
      w\<lparr>db := biblioteca a (libri_docs n) u p, next_oid := n + 6\<rparr>)"
proof -
  let ?ds = "libri_data [BOid n, BOid (n + 1), BOid (n + 2)]"
  have "insert_many ''libri'' ?ds w =
    (Inr (map (\<lambda>d. field d ''_id'') (assign_ids (next_oid w) ?ds)),
     put_collection ''libri''
       \<lparr>documents = libri_docs n, validator = Some libri_validator, indexes = libri_indexes\<rparr>
       (w\<lparr>next_oid := next_oid w + length ?ds\<rparr>))"
  proof (rule insert_many_success)
    show "faults w = []" by (rule assms)
    show "?ds \<noteq> []" by (simp add: libri_data_def)
    show "list_all encodable (assign_ids (next_oid w) ?ds)"
      using encodable_seed(2)[of n] by (simp add: libri_docs_def assms(3))
    show "insert_ordered (get_collection w ''libri'') (assign_ids (next_oid w) ?ds) =
      (None, \<lparr>documents = libri_docs n, validator = Some libri_validator, indexes = libri_indexes\<rparr>)"
      using ordered_libri[of n]
      by (simp add: get_collection_def assms(1,3) biblioteca_at libri_docs_def)
  qed
  moreover have "length ?ds = 3" by (simp add: libri_data_def)
  ultimately show ?thesis
    using ids_seed(2)[of n]
    by (simp add: libri_docs_def put_collection_def assms(1,3) biblioteca_upd)
qed

lemma insert_utenti:
  assumes "db w = biblioteca a l [] p" "faults w = []" "next_oid w = n + 6"
  shows "insert_many ''utenti'' utenti_data w =
     (Inr [BOid (n + 6), BOid (n + 7), BOid (n + 8)],
      w\<lparr>db := biblioteca a l (utenti_docs n) p, next_oid := n + 9\<rparr>)"
proof -
  have "insert_many ''utenti'' utenti_data w =
    (Inr (map (\<lambda>d. field d ''_id'') (assign_ids (next_oid w) utenti_data)),
     put_collection ''utenti''
       \<lparr>documents = utenti_docs n, validator = Some utenti_validator, indexes = utenti_indexes\<rparr>
       (w\<lparr>next_oid := next_oid w + length utenti_data\<rparr>))"
  proof (rule insert_many_success)
    show "faults w = []" by (rule assms)
    show "utenti_data \<noteq> []" by (simp add: utenti_data_def)
    show "list_all encodable (assign_ids (next_oid w) utenti_data)"
      using encodable_seed(3)[of n] by (simp add: utenti_docs_def assms(3))
    show "insert_ordered (get_collection w ''utenti'') (assign_ids (next_oid w) utenti_data) =
      (None, \<lparr>documents = utenti_docs n, validator = Some utenti_validator,
               indexes = utenti_indexes\<rparr>)"
      using ordered_utenti[of n]
      by (simp add: get_collection_def assms(1,3) biblioteca_at utenti_docs_def)
  qed
  moreover have "length utenti_data = 3" by (simp add: utenti_data_def)
  ultimately show ?thesis
    using ids_seed(3)[of n]
    by (simp add: utenti_docs_def put_collection_def assms(1,3) biblioteca_upd)
qed

lemma insert_prestiti:
  assumes "db w = biblioteca a l u []" "faults w = []" "next_oid w = n + 9"
  shows "insert_many ''prestiti''
       (prestiti_data [BOid (n + 3), BOid (n + 4), BOid (n + 5)]
                      [BOid (n + 6), BOid (n + 7), BOid (n + 8)] (t0 - timedelta_days 30) t1 t2) w =
     (Inr [BOid (n + 9), BOid (n + 10)],
      w\<lparr>db := biblioteca a l u (prestiti_docs n t0 t1 t2), next_oid := n + 11\<rparr>)"
proof -
  let ?ds = "prestiti_data [BOid (n + 3), BOid (n + 4), BOid (n + 5)]
                      [BOid (n + 6), BOid (n + 7), BOid (n + 8)] (t0 - timedelta_days 30) t1 t2"
  have "insert_many ''prestiti'' ?ds w =
    (Inr (map (\<lambda>d. field d ''_id'') (assign_ids (next_oid w) ?ds)),
     put_collection ''prestiti''
       \<lparr>documents = prestiti_docs n t0 t1 t2, validator = Some prestiti_validator,
         indexes = prestiti_indexes\<rparr>
       (w\<lparr>next_oid := next_oid w + length ?ds\<rparr>))"
  proof (rule insert_many_success)
    show "faults w = []" by (rule assms)
    show "?ds \<noteq> []" by (simp add: prestiti_data_def)
    show "list_all encodable (assign_ids (next_oid w) ?ds)"
      using encodable_seed(4)[of n t0 t1 t2] by (simp add: prestiti_docs_def assms(3))
    show "insert_ordered (get_collection w ''prestiti'') (assign_ids (next_oid w) ?ds) =
      (None, \<lparr>documents = prestiti_docs n t0 t1 t2, validator = Some prestiti_validator,
               indexes = prestiti_indexes\<rparr>)"
      using ordered_prestiti[of n t0 t1 t2]
      by (simp add: get_collection_def assms(1,3) biblioteca_at prestiti_docs_def)
  qed
  moreover have "length ?ds = 2" by (simp add: prestiti_data_def)
  ultimately show ?thesis
    using ids_seed(4)[of n t0 t1 t2]
    by (simp add: prestiti_docs_def put_collection_def assms(1,3) biblioteca_upd)
qed

lemmas load_defs = load_sample_data_def load_libri_def load_utenti_def load_prestiti_def
  datetime_now_def print_ev_def Let_def

lemma load_empty:
  assumes "db w = biblioteca [] [] [] []" "faults w = []"
    and "datetime_in_range (clock w (ticks w) - timedelta_days 30)"
    and "datetime_in_range (clock w (Suc (ticks w)) - timedelta_days 10)"
    and "datetime_in_range (clock w (Suc (Suc (ticks w))) + timedelta_days 20)"
  shows "load_sample_data w =
    (Inr (),
     w\<lparr>db := biblioteca (autori_docs (next_oid w)) (libri_docs (next_oid w))
               (utenti_docs (next_oid w))
               (prestiti_docs (next_oid w) (clock w (ticks w)) (clock w (Suc (ticks w)))
                  (clock w (Suc (Suc (ticks w))))),
       next_oid := next_oid w + 11,
       ticks := Suc (Suc (Suc (ticks w))),
       console := console w @ [Inserted ''autori'' 3, Inserted ''libri'' 3,
                    Inserted ''utenti'' 3, Inserted ''prestiti'' 2]\<rparr>)"
proof -
  let ?n = "next_oid w"
  let ?t0 = "clock w (ticks w)" and ?t1 = "clock w (Suc (ticks w))" and ?t2 = "clock w (Suc (Suc (ticks w)))"
  let ?w1 = "print_ev (Inserted ''autori'' 3)
               (w\<lparr>db := biblioteca (autori_docs ?n) [] [] [], next_oid := ?n + 3\<rparr>)"
  let ?w2 = "print_ev (Inserted ''libri'' 3)
               (?w1\<lparr>db := biblioteca (autori_docs ?n) (libri_docs ?n) [] [], next_oid := ?n + 6\<rparr>)"
  let ?w3 = "print_ev (Inserted ''utenti'' 3)
               (?w2\<lparr>db := biblioteca (autori_docs ?n) (libri_docs ?n) (utenti_docs ?n) [],
                     next_oid := ?n + 9\<rparr>)"
  let ?w4 = "?w3\<lparr>ticks := Suc (Suc (Suc (ticks w)))\<rparr>"
  have s1: "insert_many ''autori'' autori_data w =
     (Inr [BOid ?n, BOid (?n + 1), BOid (?n + 2)],
      w\<lparr>db := biblioteca (autori_docs ?n) [] [] [], next_oid := ?n + 3\<rparr>)"
    using insert_autori[of w "[]" "[]" "[]" "[]"] assms by simp
  have s2: "insert_many ''libri'' (libri_data [BOid ?n, BOid (?n + 1), BOid (?n + 2)]) ?w1 =
     (Inr [BOid (?n + 3), BOid (?n + 4), BOid (?n + 5)],
      ?w1\<lparr>db := biblioteca (autori_docs ?n) (libri_docs ?n) [] [], next_oid := ?n + 6\<rparr>)"
    by (rule insert_libri) (simp_all add: print_ev_def assms)
  have s3: "insert_many ''utenti'' utenti_data ?w2 =
     (Inr [BOid (?n + 6), BOid (?n + 7), BOid (?n + 8)],
      ?w2\<lparr>db := biblioteca (autori_docs ?n) (libri_docs ?n) (utenti_docs ?n) [],
           next_oid := ?n + 9\<rparr>)"
    by (rule insert_utenti) (simp_all add: print_ev_def assms)
  have s4: "insert_many ''prestiti''
       (prestiti_data [BOid (?n + 3), BOid (?n + 4), BOid (?n + 5)]
          [BOid (?n + 6), BOid (?n + 7), BOid (?n + 8)] (?t0 - timedelta_days 30) ?t1 ?t2) ?w4 =
     (Inr [BOid (?n + 9), BOid (?n + 10)],
      ?w4\<lparr>db := biblioteca (autori_docs ?n) (libri_docs ?n) (utenti_docs ?n)
                 (prestiti_docs ?n ?t0 ?t1 ?t2),
           next_oid := ?n + 11\<rparr>)"
    by (rule insert_prestiti) (simp_all add: print_ev_def assms)
  show ?thesis
    using s1 s2 s3 s4 assms(3-5)
    by (simp add: load_defs numeral_3_eq_3[symmetric] numeral_2_eq_2[symmetric])
qed

subsection \<open>The seed books\<close>

text \<open>
  Claim C9. Every book of the seed batch has at most as many available copies as copies
  in total: 3 of 5, 2 of 3 and 1 of 4, whatever ids the authors got. Nothing enforces
  it: the validator of \<^verbatim>\<open>libri\<close> takes the first seed book with 6 available copies
  of 5.
\<close>

theorem seed_copies_within_total:
  "map (\<lambda>d. (field d ''copie_disponibili'', field d ''copie_totali'')) (libri_data autori_ids)
     = [(BInt 3, BInt 5), (BInt 2, BInt 3), (BInt 1, BInt 4)]
   \<and> list_all (\<lambda>d. case (field d ''copie_disponibili'', field d ''copie_totali'') of
                     (BInt a, BInt t) \<Rightarrow> a \<le> t | _ \<Rightarrow> False) (libri_data autori_ids)
   \<and> validates libri_validator
        (dict_set (hd (libri_data [BOid 0, BOid 1, BOid 2])) ''copie_disponibili'' (BInt 6))"
  by (simp add: libri_data_def field_def validates_def libri_validator_def check_property_def
        isbn_seed del: matches.simps)

subsection \<open>The export\<close>

lemma convert_value_plain: "\<not> is_ObjectId (convert_value v) \<and> \<not> is_datetime (convert_value v)"
  by (cases v) simp_all

lemma map_of_dict_set: "map_of (dict_set d k v) k' = (if k' = k then Some v else map_of d k')"
  by (induction d) auto

lemma map_of_convert:
  "map_of (map (\<lambda>kv. (fst kv, convert_value (snd kv))) d) k = map_option convert_value (map_of d k)"
  by (induction d) auto

lemma convert_document_plain:
  "list_all (\<lambda>kv. \<not> is_ObjectId (snd kv) \<and> \<not> is_datetime (snd kv)) (convert_document doc)"
  by (simp add: convert_document_def Let_def list_all_iff convert_value_plain split: option.splits)

lemma convert_document_at:
  "map_of (convert_document doc) k =
     map_option (\<lambda>v. if k = ''_id'' then BStr (py_str v) else convert_value v) (map_of doc k)"
proof (cases "map_of doc k")
  case None
  then show ?thesis
    by (auto simp add: convert_document_def Let_def map_of_convert map_of_dict_set
          split: option.splits)
next
  case (Some v)
  then show ?thesis
    by (cases "k = ''_id''")
       (auto simp add: convert_document_def Let_def map_of_convert map_of_dict_set
          split: option.splits)
qed

lemma convert_documents_plain:
  "list_all (list_all (\<lambda>kv. \<not> is_ObjectId (snd kv) \<and> \<not> is_datetime (snd kv)))
     (map convert_document ds)"
  by (induction ds) (simp_all add: convert_document_plain)

lemma export_collection_file:
  assumes "faults w = []" "list_all decodable (documents (get_collection w name))"
  shows "export_collection name w =
     (Inr (), w\<lparr>files := (files w)(''data/'' @ name @ ''_sample.json'' \<mapsto>
                  json_dump (map convert_document (documents (get_collection w name)))),
             console := console w @ [FileCreated (''data/'' @ name @ ''_sample.json'')
                  (length (documents (get_collection w name)))]\<rparr>)"
  using assms
  by (simp add: export_collection_def find_def write_json_def env_call_def Let_def print_ev_def
        get_collection_def)

text \<open>
  Claim C2. The file the exporter writes for a collection is the JSON form of its
  documents after the conversion loop, and no value of a converted document is an
  ObjectId or a date: under every key but \<^verbatim>\<open>_id\<close> an ObjectId has become the string of
  its 24 hexadecimal digits, a date its \<^verbatim>\<open>isoformat()\<close> string, and any other value
  (so null too) is what it was; \<^verbatim>\<open>_id\<close> holds \<^verbatim>\<open>str\<close> of what it held. This is for a
  collection the driver can decode and an export that no call fails.
\<close>

theorem export_converts:
  assumes "faults w = []" "list_all decodable (documents (get_collection w name))"
  shows "files (snd (export_collection name w)) (''data/'' @ name @ ''_sample.json'')
           = Some (json_dump (map convert_document (documents (get_collection w name))))
       \<and> list_all (list_all (\<lambda>kv. \<not> is_ObjectId (snd kv) \<and> \<not> is_datetime (snd kv)))
           (map convert_document (documents (get_collection w name)))
       \<and> map_of (convert_document doc) k =
           map_option (\<lambda>v. if k = ''_id'' then BStr (py_str v) else convert_value v) (map_of doc k)
       \<and> convert_value (BOid n) = BStr (str_ObjectId n)
       \<and> convert_value (BDate t) = BStr (isoformat t)
       \<and> convert_value BNull = BNull
       \<and> json_value (convert_value (BOid n)) = JString (str_ObjectId n)
       \<and> json_value (convert_value (BDate t)) = JString (isoformat t)"
  using export_collection_file[OF assms]
  by (simp add: convert_documents_plain convert_document_at)

lemma decodable_seeded: "list_all decodable (documents (get_collection seeded_world ''prestiti''))"
  by (simp add: seeded_world_def empty_world_def get_collection_def biblioteca_at prestiti_docs_def
        prestiti_data_def decodable_def datetime_in_range_def datetime_def days_from_civil_def
        timedelta_days_def)

theorem export_converts_witness:
  "files (snd (export_collection ''prestiti'' seeded_world)) ''data/prestiti_sample.json''
     = Some (json_dump (map convert_document
         (prestiti_docs 0 (datetime 2024 6 1) (datetime 2024 6 1 + 1) (datetime 2024 6 1 + 2))))
   \<and> convert_value (BOid 10) = BStr (str_ObjectId 10)"
  using export_converts[of seeded_world "''prestiti''" "[]" "''_id''" 10 0] decodable_seeded
  by (simp add: seeded_world_def empty_world_def get_collection_def biblioteca_at)

subsection \<open>Ordered inserts in general\<close>

lemma insert_ordered_result:
  "fst (insert_ordered c ds) = None \<or> fst (insert_ordered c ds) = Some BulkWriteError"
  by (induction ds arbitrary: c) simp_all

lemma insert_ordered_shape:
  "validator (snd (insert_ordered c ds)) = validator c
   \<and> indexes (snd (insert_ordered c ds)) = indexes c
   \<and> (\<exists>new. documents (snd (insert_ordered c ds)) = documents c @ new \<and> set new \<subseteq> set ds)"
proof (induction ds arbitrary: c)
  case Nil
  then show ?case by simp
next
  case (Cons d ds)
  show ?case
  proof (cases "accepts c d")
    case True
    from Cons[of "c\<lparr>documents := documents c @ [d]\<rparr>"] True show ?thesis
      by auto
  next
    case False
    then show ?thesis by simp
  qed
qed

lemma insert_ordered_None:
  assumes "fst (insert_ordered c ds) = None" "ix \<in> set (indexes c)" "unique ix" "d \<in> set ds"
  shows "index_key ix d \<notin> set (map (index_key ix) (documents c))"
  using assms
proof (induction ds arbitrary: c)
  case Nil
  then show ?case by simp
next
  case (Cons d0 ds)
  show ?case
  proof (cases "accepts c d0")
    case False
    with Cons.prems show ?thesis by simp
  next
    case True
    show ?thesis
    proof (cases "d = d0")
      case True
      with \<open>accepts c d0\<close> Cons.prems(2,3) show ?thesis
        by (auto simp add: accepts_def violates_unique_def list_all_iff)
    next
      case False
      with Cons.prems(4) have "d \<in> set ds" by simp
      moreover from Cons.prems(1) True
      have "fst (insert_ordered (c\<lparr>documents := documents c @ [d0]\<rparr>) ds) = None" by simp
      ultimately have "index_key ix d \<notin>
          set (map (index_key ix) (documents (c\<lparr>documents := documents c @ [d0]\<rparr>)))"
        using Cons.IH[of "c\<lparr>documents := documents c @ [d0]\<rparr>"] Cons.prems(2,3) by simp
      then show ?thesis by simp
    qed
  qed
qed

lemma insert_ordered_valid:
  assumes "fst (insert_ordered c ds) = None" "validator c = Some sch"
  shows "list_all (validates sch) ds"
  using assms
proof (induction ds arbitrary: c)
  case Nil
  then show ?case by simp
next
  case (Cons d ds)
  show ?case
  proof (cases "accepts c d")
    case False
    with Cons.prems show ?thesis by simp
  next
    case True
    with Cons.prems Cons.IH[of "c\<lparr>documents := documents c @ [d]\<rparr>"] show ?thesis
      by (simp add: accepts_def)
  qed
qed

lemma insert_ordered_append:
  assumes "validator c = Some sch" "list_all (validates sch) ds"
    and "distinct (map (\<lambda>d. field d ''_id'') ds)"
    and "set (map (\<lambda>d. field d ''_id'') ds) \<inter> set (map (\<lambda>d. field d ''_id'') (documents c)) = {}"
    and "list_all (\<lambda>ix. unique ix \<longrightarrow> distinct (map (index_key ix) ds)
            \<and> set (map (index_key ix) ds) \<inter> set (map (index_key ix) (documents c)) = {})
          (indexes c)"
  shows "insert_ordered c ds = (None, c\<lparr>documents := documents c @ ds\<rparr>)"
  using assms
proof (induction ds arbitrary: c)
  case Nil
  then show ?case by simp
next
  case (Cons d ds)
  have acc: "accepts c d"
    using Cons.prems by (auto simp add: accepts_def violates_unique_def list_all_iff)
  let ?c = "c\<lparr>documents := documents c @ [d]\<rparr>"
  have "insert_ordered ?c ds = (None, ?c\<lparr>documents := documents ?c @ ds\<rparr>)"
  proof (rule Cons.IH)
    show "validator ?c = Some sch" using Cons.prems(1) by simp
    show "list_all (validates sch) ds" using Cons.prems(2) by simp
    show "distinct (map (\<lambda>d. field d ''_id'') ds)" using Cons.prems(3) by simp
    show "set (map (\<lambda>d. field d ''_id'') ds) \<inter> set (map (\<lambda>d. field d ''_id'') (documents ?c)) = {}"
      using Cons.prems(3,4) by auto
    show "list_all (\<lambda>ix. unique ix \<longrightarrow> distinct (map (index_key ix) ds)
            \<and> set (map (index_key ix) ds) \<inter> set (map (index_key ix) (documents ?c)) = {})
          (indexes ?c)"
      using Cons.prems(5) by (auto simp add: list_all_iff)
  qed
  with acc show ?case by simp
qed

subsection \<open>The pattern of the ISBN\<close>

lemma isbn_required:
  assumes "validates libri_validator d"
  shows "\<exists>s. map_of d ''isbn'' = Some (BStr s) \<and> matches Isbn_pattern s"
proof -
  from assms have "''isbn'' \<in> fst ` set d"
    by (simp add: validates_def libri_validator_def)
  then obtain v where v: "map_of d ''isbn'' = Some v"
    by (cases "map_of d ''isbn''") (auto simp add: map_of_eq_None_iff)
  from assms have "check_property d (''isbn'', [BsonType [T_string], Pattern Isbn_pattern])"
    by (simp add: validates_def libri_validator_def)
  with v show ?thesis
    by (cases v) (simp_all add: check_property_def split: if_splits)
qed

lemma letters_fail_isbn:
  assumes "list_ex alpha s"
  shows "\<not> matches Isbn_pattern s"
proof -
  from assms obtain c where c: "c \<in> set s" "alpha c"
    by (auto simp add: list_ex_iff)
  then have nc: "\<not> isbn_char c" "c \<noteq> CHR 0x0A"
    by (auto simp add: alpha_def isbn_char_def digit_def)
  have "\<not> isbn_body s"
    using c(1) nc(1) by (auto simp add: isbn_body_def list_all_iff)
  moreover have "\<not> isbn_body (butlast s)" if "s \<noteq> []" "last s = CHR 0x0A"
  proof -
    from that have "s = butlast s @ [CHR 0x0A]"
      by (metis append_butlast_last_id)
    with c(1) nc(2) have "c \<in> set (butlast s)"
      by (metis Un_iff empty_iff empty_set insert_iff list.simps(15) set_append)
    with nc(1) show ?thesis
      by (auto simp add: isbn_body_def list_all_iff)
  qed
  ultimately show ?thesis
    by (auto simp add: anchored_def)
qed

lemma assign_ids_keeps:
  assumes "d \<in> set ds" "k \<noteq> ''_id''"
  shows "\<exists>d'\<in>set (assign_ids n ds). map_of d' k = map_of d k"
  using assms by (induction ds arbitrary: n) auto

lemma insert_ordered_stored:
  assumes "validator c = Some sch" "x \<in> set (documents (snd (insert_ordered c ds)))"
  shows "x \<in> set (documents c) \<or> validates sch x"
  using assms
proof (induction ds arbitrary: c)
  case Nil
  then show ?case by simp
next
  case (Cons d ds)
  show ?case
  proof (cases "accepts c d")
    case False
    with Cons.prems show ?thesis by simp
  next
    case True
    with Cons.prems Cons.IH[of "c\<lparr>documents := documents c @ [d]\<rparr>"] show ?thesis
      by (auto simp add: accepts_def)
  qed
qed

lemma assign_ids_encodable:
  "list_all encodable (assign_ids n ds) = list_all encodable ds"
  by (induction ds arbitrary: n) (simp_all add: encodable_def)

lemma insert_many_refused:
  assumes "faults w = []" "db w name = Some c" "validator c = Some sch"
    and "d \<in> set (assign_ids (next_oid w) ds)" "\<not> validates sch d"
  shows "fst (insert_many name ds w) =
           (if list_all encodable ds then Inl BulkWriteError else Inl OverflowError)"
proof -
  from assms(4) have ne: "ds \<noteq> []" by auto
  let ?ds = "assign_ids (next_oid w) ds"
  have "fst (insert_ordered c ?ds) \<noteq> None"
    using insert_ordered_valid[of c ?ds sch] assms(3,4,5) by (auto simp add: list_all_iff)
  with insert_ordered_result[of c ?ds]
  have "fst (insert_ordered c ?ds) = Some BulkWriteError" by simp
  then show ?thesis
    using ne assms(1,2)
    by (cases "insert_ordered c ?ds")
       (simp add: insert_many_def Let_def env_call_def get_collection_def assign_ids_encodable)
qed

lemma insert_many_stored:
  assumes "db w name = Some c" "validator c = Some sch"
    and "x \<in> set (documents (get_collection (snd (insert_many name ds w)) name))"
  shows "x \<in> set (documents c) \<or> validates sch x"
proof -
  let ?w0 = "w\<lparr>next_oid := next_oid w + length ds\<rparr>"
  let ?ds = "assign_ids (next_oid w) ds"
  have stored: "y \<in> set (documents (snd (insert_ordered c ?ds))) \<Longrightarrow>
      y \<in> set (documents c) \<or> validates sch y" for y
    using insert_ordered_stored[OF assms(2)] by blast
  show ?thesis
    using assms(1,3) stored[of x]
    by (cases "insert_ordered c ?ds")
       (auto simp add: insert_many_def Let_def env_call_def get_collection_def put_collection_def
          split: if_splits list.splits option.splits)
qed

text \<open>
  Claim C7. The validator of \<^verbatim>\<open>libri\<close> requires \<^verbatim>\<open>isbn\<close> to be a string that matches
  \<^verbatim>\<open>^[0-9-]{10,17}$\<close>. So a batch that holds a book whose \<^verbatim>\<open>isbn\<close> is missing, is not a
  string or does not match is refused when it is inserted into a collection with this
  validator: \<^verbatim>\<open>insert_many\<close> raises \<^verbatim>\<open>BulkWriteError\<close> (or \<^verbatim>\<open>OverflowError\<close> before
  anything is sent, if the batch holds an integer beyond 64 bits), and every book in the
  collection afterwards was there before or has a matching \<^verbatim>\<open>isbn\<close>. A string with
  a letter in it never matches.
\<close>

theorem isbn_pattern_enforced:
  assumes "faults w = []" "db w ''libri'' = Some c" "validator c = Some libri_validator"
    and "d \<in> set ds"
    and "\<not> (\<exists>s. map_of d ''isbn'' = Some (BStr s) \<and> matches Isbn_pattern s)"
  shows "fst (insert_many ''libri'' ds w) =
           (if list_all encodable ds then Inl BulkWriteError else Inl OverflowError)
       \<and> list_all (\<lambda>x. x \<in> set (documents c)
              \<or> (\<exists>s. map_of x ''isbn'' = Some (BStr s) \<and> matches Isbn_pattern s))
           (documents (get_collection (snd (insert_many ''libri'' ds w)) ''libri''))
       \<and> (list_ex alpha s \<longrightarrow> \<not> matches Isbn_pattern s)"
proof -
  from assign_ids_keeps[OF assms(4), of "''isbn''" "next_oid w"]
  obtain d' where d': "d' \<in> set (assign_ids (next_oid w) ds)" "map_of d' ''isbn'' = map_of d ''isbn''"
    by auto
  with assms(5) isbn_required[of d'] have "\<not> validates libri_validator d'"
    by auto
  with d'(1) have a: "fst (insert_many ''libri'' ds w) =
           (if list_all encodable ds then Inl BulkWriteError else Inl OverflowError)"
    using insert_many_refused[OF assms(1-3)] by blast
  have b: "list_all (\<lambda>x. x \<in> set (documents c)
              \<or> (\<exists>s. map_of x ''isbn'' = Some (BStr s) \<and> matches Isbn_pattern s))
           (documents (get_collection (snd (insert_many ''libri'' ds w)) ''libri''))"
    unfolding list_all_iff
    using insert_many_stored[OF assms(2,3)] isbn_required by blast
  from a b letters_fail_isbn show ?thesis by blast
qed

theorem isbn_pattern_enforced_witness:
  "fst (insert_many ''libri''
          [dict_set (hd (libri_data [BOid 0, BOid 1, BOid 2])) ''isbn'' (BStr ''978-88-17-1234X-1'')]
          created_world) = Inl BulkWriteError
   \<and> \<not> matches Isbn_pattern ''978-88-17-1234X-1''"
  using isbn_pattern_enforced[of created_world
      "\<lparr>documents = [], validator = Some libri_validator, indexes = libri_indexes\<rparr>"
      "dict_set (hd (libri_data [BOid 0, BOid 1, BOid 2])) ''isbn'' (BStr ''978-88-17-1234X-1'')"
      "[dict_set (hd (libri_data [BOid 0, BOid 1, BOid 2])) ''isbn'' (BStr ''978-88-17-1234X-1'')]"
      "''978-88-17-1234X-1''"]
  by (simp add: created_world_def empty_world_def biblioteca_at libri_data_def encodable_def
        anchored_def isbn_body_def isbn_char_def digit_def alpha_def)

subsection \<open>The aggregation of the validation\<close>






subsection \<open>The loans of the seed batch\<close>

text \<open>
  Claim C10. After \<^verbatim>\<open>load_sample_data\<close> on the four empty collections there are two
  loans. Their \<^verbatim>\<open>libro_id\<close> and \<^verbatim>\<open>utente_id\<close> are the ids of the first and third book
  and of the first and second patron that this run inserted, and \<^verbatim>\<open>utente_nome\<close> and
  \<^verbatim>\<open>utente_email\<close> of each loan are \<^verbatim>\<open>nome\<close>, a space and \<^verbatim>\<open>cognome\<close>, and \<^verbatim>\<open>email\<close>, of
  the one patron whose \<^verbatim>\<open>_id\<close> is the loan's \<^verbatim>\<open>utente_id\<close>: Mario Rossi and Giulia
  Bianchi.
\<close>

theorem loan_snapshots:
  assumes "db w = biblioteca [] [] [] []" "faults w = []"
    and "datetime_in_range (clock w (ticks w) - timedelta_days 30)"
    and "datetime_in_range (clock w (Suc (ticks w)) - timedelta_days 10)"
    and "datetime_in_range (clock w (Suc (Suc (ticks w))) + timedelta_days 20)"
  shows
    "(let w' = snd (load_sample_data w);
          libri = documents (get_collection w' ''libri'');
          utenti = documents (get_collection w' ''utenti'');
          prestiti = documents (get_collection w' ''prestiti'')
      in length prestiti = 2
         \<and> map (\<lambda>p. (field p ''libro_id'', field p ''utente_id'')) prestiti
             = [(field (libri ! 0) ''_id'', field (utenti ! 0) ''_id''),
                (field (libri ! 2) ''_id'', field (utenti ! 1) ''_id'')]
         \<and> map (\<lambda>p. (field p ''utente_nome'', field p ''utente_email'')) prestiti
             = [(BStr ''Mario Rossi'', BStr ''mario.rossi@email.com''),
                (BStr ''Giulia Bianchi'', BStr ''giulia.bianchi@email.com'')]
         \<and> map (\<lambda>p. (field p ''utente_nome'', field p ''utente_email'')) prestiti
             = map (\<lambda>p. case filter (\<lambda>u. field u ''_id'' = field p ''utente_id'') utenti of
                          [u] \<Rightarrow> (BStr (py_str (field u ''nome'') @ '' '' @ py_str (field u ''cognome'')),
                                  field u ''email'')
                        | _ \<Rightarrow> (BNull, BNull)) prestiti)"
  using load_empty[OF assms]
  by (simp add: Let_def get_collection_def biblioteca_at libri_docs_def utenti_docs_def
        prestiti_docs_def libri_data_def utenti_data_def prestiti_data_def field_def)

theorem loan_snapshots_witness:
  "(let w' = snd (load_sample_data created_world);
        utenti = documents (get_collection w' ''utenti'');
        prestiti = documents (get_collection w' ''prestiti'')
    in length prestiti = 2
       \<and> map (\<lambda>p. (field p ''utente_nome'', field p ''utente_email'')) prestiti
           = map (\<lambda>p. case filter (\<lambda>u. field u ''_id'' = field p ''utente_id'') utenti of
                        [u] \<Rightarrow> (BStr (py_str (field u ''nome'') @ '' '' @ py_str (field u ''cognome'')),
                                field u ''email'')
                      | _ \<Rightarrow> (BNull, BNull)) prestiti)"
  using loan_snapshots[of created_world]
  by (simp add: created_world_def empty_world_def Let_def datetime_in_range_def datetime_def
        days_from_civil_def timedelta_days_def)

subsection \<open>Validation and export of a seeded database\<close>

lemma pipeline_seeded:
  assumes "\<forall>x\<in>set a'. field x ''_id'' \<noteq> BOid n \<and> field x ''_id'' \<noteq> BOid (n + 1)
             \<and> field x ''_id'' \<noteq> BOid (n + 2)"
  shows "pipeline (autori_docs n @ a') (libri_docs n) =
    Inr [[(''_id'', BOid (n + 3)), (''titolo'', BStr ''I Promessi Sposi''),
          (''copie_disponibili'', BInt 3), (''autore_nome'', BStr ''Alessandro Manzoni'')],
         [(''_id'', BOid (n + 4)), (''titolo'', BStr ''Il Barone Rampante''),
          (''copie_disponibili'', BInt 2), (''autore_nome'', BStr ''Italo Calvino'')],
         [(''_id'', BOid (n + 5)), (''titolo'', BStr ''Il Nome della Rosa''),
          (''copie_disponibili'', BInt 1), (''autore_nome'', BStr ''Umberto Eco'')]]"
proof -
  have "filter (\<lambda>a. field a ''_id'' = BOid n) a' = []"
    "filter (\<lambda>a. field a ''_id'' = BOid (Suc n)) a' = []"
    "filter (\<lambda>a. field a ''_id'' = BOid (Suc (Suc n))) a' = []"
    using assms by (simp_all add: filter_empty_conv)
  then show ?thesis
    by (simp add: pipeline_def lookup_stage_def unwind_stage_def project_stage_def
          autori_docs_def libri_docs_def autori_data_def libri_data_def field_def)
qed

lemma validate_seeded:
  assumes "db w = biblioteca (autori_docs n @ a') (libri_docs n) u p" "faults w = []"
    and "\<forall>x\<in>set a'. field x ''_id'' \<noteq> BOid n \<and> field x ''_id'' \<noteq> BOid (n + 1)
             \<and> field x ''_id'' \<noteq> BOid (n + 2)"
  shows "validate_setup w =
    (Inr (), w\<lparr>console := console w @
       [Count ''autori'' (3 + length a'), Count ''libri'' 3, Count ''utenti'' (length u),
        Count ''prestiti'' (length p), QueryResults 3,
        QueryExample (BStr ''I Promessi Sposi'') (BStr ''Alessandro Manzoni'')]\<rparr>)"
proof -
  have len: "length (autori_docs n) = 3" "length (libri_docs n) = 3"
    by (simp_all add: autori_docs_def libri_docs_def autori_data_def libri_data_def)
  have counts: "count_each [''autori'', ''libri'', ''utenti'', ''prestiti''] w =
      (Inr [(''autori'', 3 + length a'), (''libri'', 3), (''utenti'', length u),
            (''prestiti'', length p)], w)"
    using assms(1,2) len
    by (simp add: count_documents_def env_call_def get_collection_def biblioteca_at)
  have query: "test_query w' =
      (Inr (), w'\<lparr>console := console w' @ [QueryResults 3,
          QueryExample (BStr ''I Promessi Sposi'') (BStr ''Alessandro Manzoni'')]\<rparr>)"
    if "db w' = db w" "faults w' = []" for w'
    using that assms(1) pipeline_seeded[OF assms(3)]
    by (simp add: test_query_def aggregate_libri_def env_call_def get_collection_def
          biblioteca_at Let_def print_ev_def)
  show ?thesis
    using counts assms(2)
    by (simp add: validate_setup_def print_ev_def query)
qed

lemma decodable_seed:
  "list_all decodable (autori_docs n)" "list_all decodable (libri_docs n)"
  "list_all decodable (utenti_docs n)"
  by (simp_all add: autori_docs_def libri_docs_def utenti_docs_def autori_data_def
        libri_data_def utenti_data_def decodable_def datetime_in_range_def datetime_def
        days_from_civil_def)

lemma decodable_prestiti:
  assumes "datetime_in_range t0" "datetime_in_range (t0 - timedelta_days 30)"
    "datetime_in_range (t1 - timedelta_days 10)" "datetime_in_range (t2 + timedelta_days 20)"
  shows "list_all decodable (prestiti_docs n t0 t1 t2)"
  using assms
  by (simp add: prestiti_docs_def prestiti_data_def decodable_def datetime_in_range_def
        timedelta_days_def)

lemma export_all:
  assumes "db w = biblioteca a l u p" "faults w = []"
    and "list_all decodable a" "list_all decodable l" "list_all decodable u" "list_all decodable p"
  shows "export_sample_json w =
    (Inr (), w\<lparr>files := (files w)
          (''data/autori_sample.json'' \<mapsto> json_dump (map convert_document a),
           ''data/libri_sample.json'' \<mapsto> json_dump (map convert_document l),
           ''data/utenti_sample.json'' \<mapsto> json_dump (map convert_document u),
           ''data/prestiti_sample.json'' \<mapsto> json_dump (map convert_document p)),
        console := console w @
          [FileCreated ''data/autori_sample.json'' (length a),
           FileCreated ''data/libri_sample.json'' (length l),
           FileCreated ''data/utenti_sample.json'' (length u),
           FileCreated ''data/prestiti_sample.json'' (length p)]\<rparr>)"
proof -
  let ?w1 = "w\<lparr>files := (files w)(''data/autori_sample.json'' \<mapsto> json_dump (map convert_document a)),
              console := console w @ [FileCreated ''data/autori_sample.json'' (length a)]\<rparr>"
  let ?w2 = "?w1\<lparr>files := (files ?w1)(''data/libri_sample.json'' \<mapsto> json_dump (map convert_document l)),
              console := console ?w1 @ [FileCreated ''data/libri_sample.json'' (length l)]\<rparr>"
  let ?w3 = "?w2\<lparr>files := (files ?w2)(''data/utenti_sample.json'' \<mapsto> json_dump (map convert_document u)),
              console := console ?w2 @ [FileCreated ''data/utenti_sample.json'' (length u)]\<rparr>"
  let ?w4 = "?w3\<lparr>files := (files ?w3)(''data/prestiti_sample.json'' \<mapsto> json_dump (map convert_document p)),
              console := console ?w3 @ [FileCreated ''data/prestiti_sample.json'' (length p)]\<rparr>"
  have e1: "export_collection ''autori'' w = (Inr (), ?w1)"
    using export_collection_file[of w "''autori''"] assms
    by (simp add: get_collection_def biblioteca_at)
  have e2: "export_collection ''libri'' ?w1 = (Inr (), ?w2)"
    using export_collection_file[of ?w1 "''libri''"] assms
    by (simp add: get_collection_def biblioteca_at)
  have e3: "export_collection ''utenti'' ?w2 = (Inr (), ?w3)"
    using export_collection_file[of ?w2 "''utenti''"] assms
    by (simp add: get_collection_def biblioteca_at)
  have e4: "export_collection ''prestiti'' ?w3 = (Inr (), ?w4)"
    using export_collection_file[of ?w3 "''prestiti''"] assms
    by (simp add: get_collection_def biblioteca_at)
  have "export_sample_json w = (Inr (), ?w4)"
    using assms(2) e1 e2 e3 e4
    by (simp add: export_sample_json_def makedirs_def env_call_def)
  then show ?thesis by simp
qed

subsection \<open>The complete setup on an empty database\<close>

lemma and_then_Inr: "and_then (Inr u, w) f = f w"
  by (simp add: and_then_def)

lemma and_then_Inl: "and_then (Inl e, w) f = (Inl e, w)"
  by (simp add: and_then_def)

lemma setup_from_empty:
  assumes "db w = (\<lambda>name. None)" "faults w = []"
    and "datetime_in_range (clock w (ticks w))"
    and "datetime_in_range (clock w (ticks w) - timedelta_days 30)"
    and "datetime_in_range (clock w (Suc (ticks w)) - timedelta_days 10)"
    and "datetime_in_range (clock w (Suc (Suc (ticks w))) + timedelta_days 20)"
  shows "and_then (and_then (and_then (and_then (and_then
           (Inr (), w) create_collections) create_indexes) load_sample_data)
           validate_setup) export_sample_json =
    (Inr (),
     w\<lparr>db := biblioteca (autori_docs (next_oid w)) (libri_docs (next_oid w))
               (utenti_docs (next_oid w))
               (prestiti_docs (next_oid w) (clock w (ticks w)) (clock w (Suc (ticks w)))
                  (clock w (Suc (Suc (ticks w))))),
       next_oid := next_oid w + 11,
       ticks := Suc (Suc (Suc (ticks w))),
       console := console w @
         [CollectionCreated ''autori'', CollectionCreated ''libri'',
          CollectionCreated ''utenti'', CollectionCreated ''prestiti'',
          IndexesCreated ''autori'', IndexesCreated ''libri'',
          IndexesCreated ''utenti'', IndexesCreated ''prestiti'',
          Inserted ''autori'' 3, Inserted ''libri'' 3, Inserted ''utenti'' 3,
          Inserted ''prestiti'' 2,
          Count ''autori'' 3, Count ''libri'' 3, Count ''utenti'' 3, Count ''prestiti'' 2,
          QueryResults 3,
          QueryExample (BStr ''I Promessi Sposi'') (BStr ''Alessandro Manzoni''),
          FileCreated ''data/autori_sample.json'' 3, FileCreated ''data/libri_sample.json'' 3,
          FileCreated ''data/utenti_sample.json'' 3,
          FileCreated ''data/prestiti_sample.json'' 2],
       files := (files w)
          (''data/autori_sample.json'' \<mapsto> json_dump (map convert_document (autori_docs (next_oid w))),
           ''data/libri_sample.json'' \<mapsto> json_dump (map convert_document (libri_docs (next_oid w))),
           ''data/utenti_sample.json'' \<mapsto> json_dump (map convert_document (utenti_docs (next_oid w))),
           ''data/prestiti_sample.json'' \<mapsto> json_dump (map convert_document
              (prestiti_docs (next_oid w) (clock w (ticks w)) (clock w (Suc (ticks w)))
                  (clock w (Suc (Suc (ticks w)))))))\<rparr>)"
proof -
  let ?n = "next_oid w"
  let ?a = "autori_docs ?n" and ?l = "libri_docs ?n" and ?u = "utenti_docs ?n"
  let ?p = "prestiti_docs ?n (clock w (ticks w)) (clock w (Suc (ticks w)))
              (clock w (Suc (Suc (ticks w))))"
  let ?w1 = "w\<lparr>db := biblioteca [] [] [] [],
            console := console w @ [CollectionCreated ''autori'', CollectionCreated ''libri'',
                        CollectionCreated ''utenti'', CollectionCreated ''prestiti'',
                        IndexesCreated ''autori'', IndexesCreated ''libri'',
                        IndexesCreated ''utenti'', IndexesCreated ''prestiti'']\<rparr>"
  let ?w2 = "?w1\<lparr>db := biblioteca ?a ?l ?u ?p,
       next_oid := next_oid ?w1 + 11,
       ticks := Suc (Suc (Suc (ticks ?w1))),
       console := console ?w1 @ [Inserted ''autori'' 3, Inserted ''libri'' 3,
                    Inserted ''utenti'' 3, Inserted ''prestiti'' 2]\<rparr>"
  let ?w3 = "?w2\<lparr>console := console ?w2 @
       [Count ''autori'' (3 + length ([]::document list)), Count ''libri'' 3,
        Count ''utenti'' (length ?u),
        Count ''prestiti'' (length ?p), QueryResults 3,
        QueryExample (BStr ''I Promessi Sposi'') (BStr ''Alessandro Manzoni'')]\<rparr>"
  let ?w4 = "?w3\<lparr>files := (files ?w3)
          (''data/autori_sample.json'' \<mapsto> json_dump (map convert_document ?a),
           ''data/libri_sample.json'' \<mapsto> json_dump (map convert_document ?l),
           ''data/utenti_sample.json'' \<mapsto> json_dump (map convert_document ?u),
           ''data/prestiti_sample.json'' \<mapsto> json_dump (map convert_document ?p)),
        console := console ?w3 @
          [FileCreated ''data/autori_sample.json'' (length ?a),
           FileCreated ''data/libri_sample.json'' (length ?l),
           FileCreated ''data/utenti_sample.json'' (length ?u),
           FileCreated ''data/prestiti_sample.json'' (length ?p)]\<rparr>"
  have len: "length ?a = 3" "length ?l = 3" "length ?u = 3" "length ?p = 2"
    by (simp_all add: autori_docs_def libri_docs_def utenti_docs_def prestiti_docs_def
          autori_data_def libri_data_def utenti_data_def prestiti_data_def)
  have s1: "and_then (create_collections w) create_indexes = (Inr (), ?w1)"
    by (rule setup_empty[OF assms(1,2)])
  have s2: "load_sample_data ?w1 = (Inr (), ?w2)"
    using load_empty[of ?w1] assms by simp
  have s3: "validate_setup ?w2 = (Inr (), ?w3)"
    by (rule validate_seeded[where n = "?n" and a' = "[]" and u = "?u" and p = "?p"])
       (simp_all add: assms)
  have s4: "export_sample_json ?w3 = (Inr (), ?w4)"
    by (rule export_all[where a = "?a" and l = "?l" and u = "?u" and p = "?p"])
       (simp_all add: assms decodable_seed decodable_prestiti)
  have "and_then (and_then (and_then (and_then (and_then
           (Inr (), w) create_collections) create_indexes) load_sample_data)
           validate_setup) export_sample_json = (Inr (), ?w4)"
    by (simp only: and_then_Inr s1 s2 s3 s4)
  then show ?thesis
    by (simp add: len)
qed

lemma init_ok:
  "faults w = [] \<Longrightarrow>
   BibliotecaSetup_init c w = (Inr (), w\<lparr>console := console w @ [Connected]\<rparr>)"
  by (simp add: BibliotecaSetup_init_def ping_def env_call_def print_ev_def)

lemma drop_ok:
  "faults w = [] \<Longrightarrow>
   drop_database w = (Inr (), w\<lparr>db := (\<lambda>name. None), console := console w @ [DbDropped]\<rparr>)"
  by (simp add: drop_database_def client_drop_database_def env_call_def print_ev_def)

lemma main_empty:
  assumes "db w = (\<lambda>name. None)" "faults w = []"
    and "datetime_in_range (clock w (ticks w))"
    and "datetime_in_range (clock w (ticks w) - timedelta_days 30)"
    and "datetime_in_range (clock w (Suc (ticks w)) - timedelta_days 10)"
    and "datetime_in_range (clock w (Suc (Suc (ticks w))) + timedelta_days 20)"
  shows "main a w =
    (0,
     w\<lparr>db := biblioteca (autori_docs (next_oid w)) (libri_docs (next_oid w))
               (utenti_docs (next_oid w))
               (prestiti_docs (next_oid w) (clock w (ticks w)) (clock w (Suc (ticks w)))
                  (clock w (Suc (Suc (ticks w))))),
       next_oid := next_oid w + 11,
       ticks := Suc (Suc (Suc (ticks w))),
       console := console w @ [Connected] @ (if reset a then [DbDropped] else []) @
         [CollectionCreated ''autori'', CollectionCreated ''libri'',
          CollectionCreated ''utenti'', CollectionCreated ''prestiti'',
          IndexesCreated ''autori'', IndexesCreated ''libri'',
          IndexesCreated ''utenti'', IndexesCreated ''prestiti'',
          Inserted ''autori'' 3, Inserted ''libri'' 3, Inserted ''utenti'' 3,
          Inserted ''prestiti'' 2,
          Count ''autori'' 3, Count ''libri'' 3, Count ''utenti'' 3, Count ''prestiti'' 2,
          QueryResults 3,
          QueryExample (BStr ''I Promessi Sposi'') (BStr ''Alessandro Manzoni''),
          FileCreated ''data/autori_sample.json'' 3, FileCreated ''data/libri_sample.json'' 3,
          FileCreated ''data/utenti_sample.json'' 3,
          FileCreated ''data/prestiti_sample.json'' 2,
          SetupCompleted],
       files := (files w)
          (''data/autori_sample.json'' \<mapsto> json_dump (map convert_document (autori_docs (next_oid w))),
           ''data/libri_sample.json'' \<mapsto> json_dump (map convert_document (libri_docs (next_oid w))),
           ''data/utenti_sample.json'' \<mapsto> json_dump (map convert_document (utenti_docs (next_oid w))),
           ''data/prestiti_sample.json'' \<mapsto> json_dump (map convert_document
              (prestiti_docs (next_oid w) (clock w (ticks w)) (clock w (Suc (ticks w)))
                  (clock w (Suc (Suc (ticks w)))))))\<rparr>)"
proof -
  let ?w0 = "w\<lparr>console := console w @ [Connected]\<rparr>"
  have i: "BibliotecaSetup_init (connection a) w = (Inr (), ?w0)"
    by (rule init_ok[OF assms(2)])
  show ?thesis
  proof (cases "reset a")
    case True
    let ?w1 = "?w0\<lparr>db := (\<lambda>name. None), console := console ?w0 @ [DbDropped]\<rparr>"
    have d: "drop_database ?w0 = (Inr (), ?w1)"
      by (rule drop_ok) (simp add: assms)
    have "main a w = (case and_then (and_then (and_then (and_then (and_then (and_then
             (Inr (), ?w1) create_collections) create_indexes) load_sample_data)
             validate_setup) export_sample_json) (\<lambda>w'. (Inr (), print_ev SetupCompleted w')) of
        (Inr u, w1) \<Rightarrow> (0, w1)
      | (Inl (SystemExit n), w1) \<Rightarrow> (n, w1)
      | (Inl KeyboardInterrupt, w1) \<Rightarrow> (1, print_ev Interrupted w1)
      | (Inl e, w1) \<Rightarrow> (1, print_ev (SetupError e) w1))"
      using True by (simp only: main_def i and_then_Inr run_complete_setup_def d if_True)
    then show ?thesis
      using True setup_from_empty[of ?w1] assms
      by (simp add: and_then_Inr print_ev_def)
  next
    case False
    have "main a w = (case and_then (and_then (and_then (and_then (and_then (and_then
             (Inr (), ?w0) create_collections) create_indexes) load_sample_data)
             validate_setup) export_sample_json) (\<lambda>w'. (Inr (), print_ev SetupCompleted w')) of
        (Inr u, w1) \<Rightarrow> (0, w1)
      | (Inl (SystemExit n), w1) \<Rightarrow> (n, w1)
      | (Inl KeyboardInterrupt, w1) \<Rightarrow> (1, print_ev Interrupted w1)
      | (Inl e, w1) \<Rightarrow> (1, print_ev (SetupError e) w1))"
      using False by (simp only: main_def i and_then_Inr run_complete_setup_def if_False)
    then show ?thesis
      using False setup_from_empty[of ?w0] assms
      by (simp add: and_then_Inr print_ev_def)
  qed
qed

text \<open>
  Claim C1. On a server with no \<^verbatim>\<open>biblioteca\<close> database, when no call fails and the dates
  the script computes from the clock fit Python's range, \<^verbatim>\<open>main\<close> exits with status 0,
  the collections \<^verbatim>\<open>autori\<close>, \<^verbatim>\<open>libri\<close>, \<^verbatim>\<open>utenti\<close> and \<^verbatim>\<open>prestiti\<close> hold 3, 3, 3 and
  2 documents, and the console shows these insertions and the counts 3, 3, 3 and 2
  from the validation, with and without \<^verbatim>\<open>--reset\<close>.
\<close>

theorem full_run_counts:
  assumes "db w = (\<lambda>name. None)" "faults w = []"
    and "datetime_in_range (clock w (ticks w))"
    and "datetime_in_range (clock w (ticks w) - timedelta_days 30)"
    and "datetime_in_range (clock w (Suc (ticks w)) - timedelta_days 10)"
    and "datetime_in_range (clock w (Suc (Suc (ticks w))) + timedelta_days 20)"
  shows "fst (main a w) = 0
     \<and> map (\<lambda>name. length (documents (get_collection (snd (main a w)) name)))
         [''autori'', ''libri'', ''utenti'', ''prestiti''] = [3, 3, 3, 2]
     \<and> console (snd (main a w)) =
         console w @ [Connected] @ (if reset a then [DbDropped] else []) @
         [CollectionCreated ''autori'', CollectionCreated ''libri'',
          CollectionCreated ''utenti'', CollectionCreated ''prestiti'',
          IndexesCreated ''autori'', IndexesCreated ''libri'',
          IndexesCreated ''utenti'', IndexesCreated ''prestiti'',
          Inserted ''autori'' 3, Inserted ''libri'' 3, Inserted ''utenti'' 3,
          Inserted ''prestiti'' 2,
          Count ''autori'' 3, Count ''libri'' 3, Count ''utenti'' 3, Count ''prestiti'' 2,
          QueryResults 3,
          QueryExample (BStr ''I Promessi Sposi'') (BStr ''Alessandro Manzoni''),
          FileCreated ''data/autori_sample.json'' 3, FileCreated ''data/libri_sample.json'' 3,
          FileCreated ''data/utenti_sample.json'' 3,
          FileCreated ''data/prestiti_sample.json'' 2,
          SetupCompleted]"
proof -
  have len: "length (autori_docs (next_oid w)) = 3" "length (libri_docs (next_oid w)) = 3"
    "length (utenti_docs (next_oid w)) = 3"
    "length (prestiti_docs (next_oid w) t0 t1 t2) = 2" for t0 t1 t2
    by (simp_all add: autori_docs_def libri_docs_def utenti_docs_def prestiti_docs_def
          autori_data_def libri_data_def utenti_data_def prestiti_data_def)
  show ?thesis
    by (simp add: main_empty[OF assms] get_collection_def biblioteca_at len)
qed

theorem full_run_counts_witness:
  "fst (main \<lparr>reset = False, connection = ''mongodb://localhost:27017/''\<rparr> empty_world) = 0
   \<and> map (\<lambda>name. length (documents (get_collection
           (snd (main \<lparr>reset = False, connection = ''mongodb://localhost:27017/''\<rparr> empty_world))
           name)))
       [''autori'', ''libri'', ''utenti'', ''prestiti''] = [3, 3, 3, 2]"
  using full_run_counts[of empty_world "\<lparr>reset = False, connection = ''mongodb://localhost:27017/''\<rparr>"]
  by (simp add: empty_world_def datetime_in_range_def datetime_def days_from_civil_def
        timedelta_days_def)

subsection \<open>What a batch insert and the seeding stages touch\<close>

lemma insert_many_other:
  "nm \<noteq> name \<Longrightarrow> db (snd (insert_many name ds w)) nm = db w nm"
  by (simp add: insert_many_def Let_def env_call_def put_collection_def
        split: list.splits option.splits prod.splits)

lemma env_call_db: "db (snd (env_call w)) = db w"
  by (simp add: env_call_def split: list.splits)

lemma insert_many_self:
  "get_collection (snd (insert_many name ds w)) name = get_collection w name
   \<or> (\<exists>ds'. get_collection (snd (insert_many name ds w)) name
              = snd (insert_ordered (get_collection w name) ds'))"
proof (cases "ds = [] \<or> \<not> list_all encodable (assign_ids (next_oid w) ds)")
  case True
  then show ?thesis
    by (auto simp add: insert_many_def Let_def get_collection_def)
next
  case False
  let ?w0 = "w\<lparr>next_oid := next_oid w + length ds\<rparr>"
  let ?ds = "assign_ids (next_oid w) ds"
  obtain f w1 where e: "env_call ?w0 = (f, w1)" by (cases "env_call ?w0")
  with env_call_db[of ?w0] have w1: "db w1 = db w" by simp
  then have g: "get_collection w1 name = get_collection w name"
    by (simp add: get_collection_def)
  show ?thesis
  proof (cases f)
    case (Some x)
    with False e g show ?thesis
      by (simp add: insert_many_def Let_def)
  next
    case None
    obtain r c where io: "insert_ordered (get_collection w1 name) ?ds = (r, c)"
      by (cases "insert_ordered (get_collection w1 name) ?ds")
    have "get_collection (snd (insert_many name ds w)) name = c"
      using False e None io
      by (cases r) (simp_all add: insert_many_def Let_def put_collection_def get_collection_def)
    with io g have "get_collection (snd (insert_many name ds w)) name
        = snd (insert_ordered (get_collection w name) ?ds)"
      by simp
    then show ?thesis by blast
  qed
qed

lemma load_prestiti_other:
  assumes nm: "nm \<noteq> ''prestiti''"
  shows "db (snd (load_prestiti lids uids w)) nm = db w nm"
proof -
  have "db (snd (case insert_many ''prestiti'' ds v of
        (Inr ids, w3) \<Rightarrow> (Inr (), print_ev (Inserted ''prestiti'' (length ids)) w3)
      | (Inl e, w3) \<Rightarrow> (if is_Exception e then (Inr (), print_ev (InsertError ''prestiti'') w3)
                          else (Inl e, w3)))) nm = db v nm" for ds v
  proof -
    have a: "db (snd (insert_many ''prestiti'' ds v)) nm = db v nm"
      using nm by (rule insert_many_other)
    obtain r w3 where p: "insert_many ''prestiti'' ds v = (r, w3)"
      by (cases "insert_many ''prestiti'' ds v")
    with a show ?thesis
      by (cases r) (simp_all add: print_ev_def)
  qed
  then show ?thesis
    by (simp add: load_prestiti_def datetime_now_def Let_def)
qed

lemma load_utenti_other:
  assumes "nm \<noteq> ''utenti''" "nm \<noteq> ''prestiti''"
  shows "db (snd (load_utenti lids w)) nm = db w nm"
proof (cases "insert_many ''utenti'' utenti_data w")
  case (Pair r w1)
  have w1: "db w1 nm = db w nm"
    using insert_many_other[OF assms(1), of utenti_data w] Pair by simp
  show ?thesis
  proof (cases r)
    case (Inl e)
    with Pair w1 show ?thesis by (simp add: load_utenti_def print_ev_def)
  next
    case (Inr ids)
    with Pair w1 load_prestiti_other[OF assms(2), of lids ids "print_ev (Inserted ''utenti'' (length ids)) w1"]
    show ?thesis by (simp add: load_utenti_def print_ev_def)
  qed
qed

lemma load_utenti_self:
  "db (snd (load_utenti lids w)) ''utenti'' = db (snd (insert_many ''utenti'' utenti_data w)) ''utenti''"
proof (cases "insert_many ''utenti'' utenti_data w")
  case (Pair r w1)
  show ?thesis
  proof (cases r)
    case (Inl e)
    with Pair show ?thesis by (simp add: load_utenti_def print_ev_def)
  next
    case (Inr ids)
    with Pair load_prestiti_other[of "''utenti''" lids ids "print_ev (Inserted ''utenti'' (length ids)) w1"]
    show ?thesis by (simp add: load_utenti_def print_ev_def)
  qed
qed

lemma load_libri_self:
  assumes "3 \<le> length aids"
  shows "db (snd (load_libri aids w)) ''libri'' = db (snd (insert_many ''libri'' (libri_data aids) w)) ''libri''"
proof (cases "insert_many ''libri'' (libri_data aids) w")
  case (Pair r w1)
  show ?thesis
  proof (cases r)
    case (Inl e)
    with Pair assms show ?thesis by (simp add: load_libri_def print_ev_def)
  next
    case (Inr ids)
    with Pair assms load_utenti_other[of "''libri''" ids "print_ev (Inserted ''libri'' (length ids)) w1"]
    show ?thesis by (simp add: load_libri_def print_ev_def)
  qed
qed

lemma insert_ordered_distinct:
  assumes "ix \<in> set (indexes c)" "unique ix" "distinct (map (index_key ix) (documents c))"
  shows "distinct (map (index_key ix) (documents (snd (insert_ordered c ds))))"
  using assms
proof (induction ds arbitrary: c)
  case Nil
  then show ?case by simp
next
  case (Cons d ds)
  show ?case
  proof (cases "accepts c d")
    case False
    with Cons.prems show ?thesis by simp
  next
    case True
    with Cons.prems have "index_key ix d \<notin> set (map (index_key ix) (documents c))"
      by (auto simp add: accepts_def violates_unique_def list_all_iff)
    with Cons.prems have "distinct (map (index_key ix) (documents (c\<lparr>documents := documents c @ [d]\<rparr>)))"
      by simp
    with Cons.IH[of "c\<lparr>documents := documents c @ [d]\<rparr>"] Cons.prems True show ?thesis
      by simp
  qed
qed

lemma insert_many_distinct:
  assumes "db w name = Some c" "ix \<in> set (indexes c)" "unique ix"
    "distinct (map (index_key ix) (documents c))"
  shows "distinct (map (index_key ix) (documents (get_collection (snd (insert_many name ds w)) name)))"
proof -
  have c: "get_collection w name = c"
    using assms(1) by (simp add: get_collection_def)
  from insert_many_self[of name ds w] show ?thesis
  proof
    assume "get_collection (snd (insert_many name ds w)) name = get_collection w name"
    with c assms(4) show ?thesis by simp
  next
    assume "\<exists>ds'. get_collection (snd (insert_many name ds w)) name
              = snd (insert_ordered (get_collection w name) ds')"
    then obtain ds' where "get_collection (snd (insert_many name ds w)) name
              = snd (insert_ordered c ds')"
      using c by auto
    with insert_ordered_distinct[OF assms(2-4), of ds'] show ?thesis by simp
  qed
qed

lemma single_key:
  "distinct (map (index_key \<lparr>keys = [(k, dir)], unique = b\<rparr>) ds) = distinct (map (\<lambda>d. field d k) ds)"
proof -
  have "map (index_key \<lparr>keys = [(k, dir)], unique = b\<rparr>) ds = map (\<lambda>x. [x]) (map (\<lambda>d. field d k) ds)"
    by (simp add: index_key_def)
  then show ?thesis
    by (simp add: distinct_map inj_on_def del: map_map)
qed

subsection \<open>Unique indexes in the store\<close>

lemma insert_many_console: "console (snd (insert_many name ds w)) = console w"
  by (simp add: insert_many_def Let_def env_call_def put_collection_def
        split: list.splits option.splits prod.splits)

lemma insert_many_append:
  assumes "faults w = []" "ds \<noteq> []" "db w name = Some c" "validator c = Some sch"
    and "list_all encodable (assign_ids (next_oid w) ds)"
    and "list_all (validates sch) (assign_ids (next_oid w) ds)"
    and "distinct (map (\<lambda>d. field d ''_id'') (assign_ids (next_oid w) ds))"
    and "set (map (\<lambda>d. field d ''_id'') (assign_ids (next_oid w) ds))
           \<inter> set (map (\<lambda>d. field d ''_id'') (documents c)) = {}"
    and "list_all (\<lambda>ix. unique ix \<longrightarrow> distinct (map (index_key ix) (assign_ids (next_oid w) ds))
            \<and> set (map (index_key ix) (assign_ids (next_oid w) ds))
                \<inter> set (map (index_key ix) (documents c)) = {})
          (indexes c)"
  shows "insert_many name ds w =
    (Inr (map (\<lambda>d. field d ''_id'') (assign_ids (next_oid w) ds)),
     w\<lparr>db := (db w)(name \<mapsto> c\<lparr>documents := documents c @ assign_ids (next_oid w) ds\<rparr>),
       next_oid := next_oid w + length ds\<rparr>)"
proof -
  have "insert_ordered (get_collection w name) (assign_ids (next_oid w) ds)
      = (None, c\<lparr>documents := documents c @ assign_ids (next_oid w) ds\<rparr>)"
    using insert_ordered_append[OF assms(4,6,7,8,9)] assms(3)
    by (simp add: get_collection_def)
  from insert_many_success[OF assms(1,2,5) this] show ?thesis
    by (simp add: put_collection_def)
qed

lemma assign_ids_field:
  assumes "d \<in> set ds" "k \<noteq> ''_id''"
  shows "\<exists>d'\<in>set (assign_ids n ds). field d' k = field d k"
proof -
  from assign_ids_keeps[OF assms, of n]
  obtain d' where "d' \<in> set (assign_ids n ds)" "map_of d' k = map_of d k" by auto
  then have "d' \<in> set (assign_ids n ds) \<and> field d' k = field d k"
    by (simp add: field_def)
  then show ?thesis by blast
qed

lemma unique_refused:
  assumes "faults w = []" "db w name = Some c"
    and "\<lparr>keys = [(k, dir)], unique = True\<rparr> \<in> set (indexes c)" "k \<noteq> ''_id''"
    and "d \<in> set ds" "b \<in> set (documents c)" "field b k = field d k"
  shows "fst (insert_many name ds w) =
           (if list_all encodable ds then Inl BulkWriteError else Inl OverflowError)"
proof -
  let ?ix = "\<lparr>keys = [(k, dir)], unique = True\<rparr>"
  let ?ds = "assign_ids (next_oid w) ds"
  from assms(5) have ne: "ds \<noteq> []" by auto
  from assign_ids_field[OF assms(5,4), of "next_oid w"]
  obtain d' where d': "d' \<in> set ?ds" "field d' k = field d k" by auto
  have "index_key ?ix d' \<in> set (map (index_key ?ix) (documents c))"
    using assms(6,7) d'(2) by (auto simp add: index_key_def intro!: image_eqI[where x = b])
  then have "fst (insert_ordered c ?ds) \<noteq> None"
    using insert_ordered_None[of c ?ds ?ix d'] assms(3) d'(1) by auto
  with insert_ordered_result[of c ?ds]
  have "fst (insert_ordered c ?ds) = Some BulkWriteError" by simp
  then show ?thesis
    using ne assms(1,2)
    by (cases "insert_ordered c ?ds")
       (simp add: insert_many_def Let_def env_call_def get_collection_def assign_ids_encodable)
qed

lemma created_collections:
  assumes "db w = (\<lambda>name. None)" "faults w = []"
  shows "get_collection (snd (create_collections w)) ''libri''
           = \<lparr>documents = [], validator = Some libri_validator, indexes = []\<rparr>"
    and "get_collection (snd (create_collections w)) ''utenti''
           = \<lparr>documents = [], validator = Some utenti_validator, indexes = []\<rparr>"
  using assms
  by (simp_all add: create_collections_def collections_def create_collection_def env_call_def
        print_ev_def put_collection_def get_collection_def)

lemma declared_indexes:
  assumes "db w = (\<lambda>name. None)" "faults w = []"
  shows "get_collection (snd (and_then (create_collections w) create_indexes)) name =
     (if name = ''autori''
        then \<lparr>documents = [], validator = Some autori_validator, indexes = autori_indexes\<rparr>
      else if name = ''libri''
        then \<lparr>documents = [], validator = Some libri_validator, indexes = libri_indexes\<rparr>
      else if name = ''utenti''
        then \<lparr>documents = [], validator = Some utenti_validator, indexes = utenti_indexes\<rparr>
      else if name = ''prestiti''
        then \<lparr>documents = [], validator = Some prestiti_validator, indexes = prestiti_indexes\<rparr>
      else new_collection)"
  by (simp add: setup_empty[OF assms] get_collection_def biblioteca_def)

lemma load_libri_refused:
  assumes "3 \<le> length aids"
    and "fst (insert_many ''libri'' (libri_data aids) w) = Inl e" "is_Exception e"
  shows "fst (load_libri aids w) = Inr ()"
    and "console (snd (load_libri aids w)) = console w @ [InsertError ''libri'']"
proof -
  obtain r w1 where p: "insert_many ''libri'' (libri_data aids) w = (r, w1)"
    by (cases "insert_many ''libri'' (libri_data aids) w")
  with assms(2) have r: "r = Inl e" by simp
  from p insert_many_console[of "''libri''" "libri_data aids" w] have c: "console w1 = console w"
    by simp
  from p r c assms(1,3) show "fst (load_libri aids w) = Inr ()"
    and "console (snd (load_libri aids w)) = console w @ [InsertError ''libri'']"
    by (simp_all add: load_libri_def print_ev_def)
qed

lemma load_utenti_refused:
  assumes "fst (insert_many ''utenti'' utenti_data w) = Inl e" "is_Exception e"
  shows "fst (load_utenti lids w) = Inr ()"
    and "console (snd (load_utenti lids w)) = console w @ [InsertError ''utenti'']"
proof -
  obtain r w1 where p: "insert_many ''utenti'' utenti_data w = (r, w1)"
    by (cases "insert_many ''utenti'' utenti_data w")
  with assms(1) have r: "r = Inl e" by simp
  from p insert_many_console[of "''utenti''" utenti_data w] have c: "console w1 = console w"
    by simp
  from p r c assms(2) show "fst (load_utenti lids w) = Inr ()"
    and "console (snd (load_utenti lids w)) = console w @ [InsertError ''utenti'']"
    by (simp_all add: load_utenti_def print_ev_def)
qed

lemma load_libri_distinct:
  assumes "db v ''libri'' = Some c" "\<lparr>keys = [(k, dir)], unique = True\<rparr> \<in> set (indexes c)"
    and "distinct (map (\<lambda>d. field d k) (documents c))"
  shows "distinct (map (\<lambda>d. field d k) (documents (get_collection (snd (load_libri aids v)) ''libri'')))"
proof (cases "3 \<le> length aids")
  case True
  have "get_collection (snd (load_libri aids v)) ''libri''
      = get_collection (snd (insert_many ''libri'' (libri_data aids) v)) ''libri''"
    using load_libri_self[OF True, of v] by (simp add: get_collection_def)
  then show ?thesis
    using insert_many_distinct[OF assms(1,2), of "libri_data aids"] assms(3)
    by (simp add: single_key)
next
  case False
  then show ?thesis
    using assms(1,3) by (simp add: load_libri_def get_collection_def)
qed

lemma load_utenti_distinct:
  assumes "db v ''utenti'' = Some c" "\<lparr>keys = [(k, dir)], unique = True\<rparr> \<in> set (indexes c)"
    and "distinct (map (\<lambda>d. field d k) (documents c))"
  shows "distinct (map (\<lambda>d. field d k) (documents (get_collection (snd (load_utenti lids v)) ''utenti'')))"
proof -
  have "get_collection (snd (load_utenti lids v)) ''utenti''
      = get_collection (snd (insert_many ''utenti'' utenti_data v)) ''utenti''"
    using load_utenti_self[of lids v] by (simp add: get_collection_def)
  then show ?thesis
    using insert_many_distinct[OF assms(1,2), of utenti_data] assms(3)
    by (simp add: single_key)
qed

lemma encodable_libri_data:
  "list_all encodable (libri_data [BOid a, BOid b, BOid c])"
  by (simp add: libri_data_def encodable_def)

lemma encodable_utenti_data: "list_all encodable utenti_data"
  by (simp add: utenti_data_def encodable_def)

lemma unindexed_load:
  assumes "faults x = []" "n + 11 \<le> m" "next_oid x = m + 3"
    and "db x ''libri'' = Some \<lparr>documents = libri_docs n, validator = Some libri_validator, indexes = []\<rparr>"
    and "db x ''utenti'' = Some \<lparr>documents = utenti_docs n, validator = Some utenti_validator, indexes = []\<rparr>"
  shows "documents (get_collection (snd (load_libri [BOid m, BOid (m + 1), BOid (m + 2)] x)) ''libri'')
           = libri_docs n @ libri_docs m"
    and "documents (get_collection (snd (load_libri [BOid m, BOid (m + 1), BOid (m + 2)] x)) ''utenti'')
           = utenti_docs n @ utenti_docs m"
proof -
  let ?aids = "[BOid m, BOid (m + 1), BOid (m + 2)]"
  let ?cl = "\<lparr>documents = libri_docs n, validator = Some libri_validator, indexes = []\<rparr>"
  let ?cu = "\<lparr>documents = utenti_docs n, validator = Some utenti_validator, indexes = []\<rparr>"
  let ?x1 = "x\<lparr>db := (db x)(''libri'' \<mapsto> ?cl\<lparr>documents := documents ?cl @ assign_ids (next_oid x) (libri_data ?aids)\<rparr>),
       next_oid := next_oid x + length (libri_data ?aids)\<rparr>"
  have ld: "assign_ids (next_oid x) (libri_data ?aids) = libri_docs m"
    by (simp add: libri_docs_def assms(3))
  have il: "insert_many ''libri'' (libri_data ?aids) x =
     (Inr (map (\<lambda>d. field d ''_id'') (assign_ids (next_oid x) (libri_data ?aids))), ?x1)"
  proof (rule insert_many_append[where sch = libri_validator])
    show "faults x = []" by (rule assms)
    show "libri_data ?aids \<noteq> []" by (simp add: libri_data_def)
    show "db x ''libri'' = Some ?cl" by (rule assms)
    show "validator ?cl = Some libri_validator" by simp
    show "list_all encodable (assign_ids (next_oid x) (libri_data ?aids))"
      by (simp only: ld encodable_seed)
    show "list_all (validates libri_validator) (assign_ids (next_oid x) (libri_data ?aids))"
      by (simp only: ld validates_libri)
    show "distinct (map (\<lambda>d. field d ''_id'') (assign_ids (next_oid x) (libri_data ?aids)))"
      by (simp only: ld ids_seed) simp
    show "set (map (\<lambda>d. field d ''_id'') (assign_ids (next_oid x) (libri_data ?aids)))
           \<inter> set (map (\<lambda>d. field d ''_id'') (documents ?cl)) = {}"
      using assms(2) by (simp only: ld ids_seed) (simp add: ids_seed)
    show "list_all (\<lambda>ix. unique ix \<longrightarrow> distinct (map (index_key ix) (assign_ids (next_oid x) (libri_data ?aids)))
            \<and> set (map (index_key ix) (assign_ids (next_oid x) (libri_data ?aids)))
                \<inter> set (map (index_key ix) (documents ?cl)) = {})
          (indexes ?cl)"
      by simp
  qed
  have l3: "length (libri_data ids) = 3" for ids by (simp add: libri_data_def)
  let ?x2 = "print_ev (Inserted ''libri'' 3) ?x1"
  have ll: "load_libri ?aids x = load_utenti [BOid (m + 3), BOid (m + 4), BOid (m + 5)] ?x2"
    using il by (simp only: ld ids_seed) (simp add: load_libri_def numeral_3_eq_3[symmetric])
  have ud: "assign_ids (next_oid ?x2) utenti_data = utenti_docs m"
    by (simp add: utenti_docs_def assms(3) print_ev_def l3 add.commute)
  let ?x3 = "?x2\<lparr>db := (db ?x2)(''utenti'' \<mapsto> ?cu\<lparr>documents := documents ?cu @ assign_ids (next_oid ?x2) utenti_data\<rparr>),
       next_oid := next_oid ?x2 + length utenti_data\<rparr>"
  have iu: "insert_many ''utenti'' utenti_data ?x2 =
     (Inr (map (\<lambda>d. field d ''_id'') (assign_ids (next_oid ?x2) utenti_data)), ?x3)"
  proof (rule insert_many_append[where sch = utenti_validator])
    show "faults ?x2 = []" by (simp add: print_ev_def assms)
    show "utenti_data \<noteq> []" by (simp add: utenti_data_def)
    show "db ?x2 ''utenti'' = Some ?cu" by (simp add: print_ev_def assms)
    show "validator ?cu = Some utenti_validator" by simp
    show "list_all encodable (assign_ids (next_oid ?x2) utenti_data)"
      by (simp only: ud encodable_seed)
    show "list_all (validates utenti_validator) (assign_ids (next_oid ?x2) utenti_data)"
      by (simp only: ud validates_utenti)
    show "distinct (map (\<lambda>d. field d ''_id'') (assign_ids (next_oid ?x2) utenti_data))"
      by (simp only: ud ids_seed) simp
    show "set (map (\<lambda>d. field d ''_id'') (assign_ids (next_oid ?x2) utenti_data))
           \<inter> set (map (\<lambda>d. field d ''_id'') (documents ?cu)) = {}"
      using assms(2) by (simp only: ud ids_seed) (simp add: ids_seed)
    show "list_all (\<lambda>ix. unique ix \<longrightarrow> distinct (map (index_key ix) (assign_ids (next_oid ?x2) utenti_data))
            \<and> set (map (index_key ix) (assign_ids (next_oid ?x2) utenti_data))
                \<inter> set (map (index_key ix) (documents ?cu)) = {})
          (indexes ?cu)"
      by simp
  qed
  have "db (snd (load_libri ?aids x)) ''libri'' = db ?x1 ''libri''"
    using load_libri_self[of ?aids x] il by simp
  then show "documents (get_collection (snd (load_libri ?aids x)) ''libri'')
           = libri_docs n @ libri_docs m"
    by (simp only: ld) (simp add: get_collection_def)
  have "db (snd (load_libri ?aids x)) ''utenti'' = db ?x3 ''utenti''"
    using load_utenti_self[of "[BOid (m + 3), BOid (m + 4), BOid (m + 5)]" ?x2] iu ll by simp
  then show "documents (get_collection (snd (load_libri ?aids x)) ''utenti'')
           = utenti_docs n @ utenti_docs m"
    using ud by (simp add: get_collection_def)
qed

text \<open>
  Claim C8. On a fresh server \<^verbatim>\<open>create_collections\<close> and \<^verbatim>\<open>create_indexes\<close> leave exactly
  three unique indexes: \<^verbatim>\<open>isbn\<close> on \<^verbatim>\<open>libri\<close>, \<^verbatim>\<open>email\<close> and \<^verbatim>\<open>codice_fiscale\<close> on
  \<^verbatim>\<open>utenti\<close>, and none on any other collection. In any world \<open>v\<close> whose \<^verbatim>\<open>libri\<close> and
  \<^verbatim>\<open>utenti\<close> have these indexes, whatever documents they hold, the seeding code from the
  books on (\<^verbatim>\<open>load_libri\<close>) and from the patrons on (\<^verbatim>\<open>load_utenti\<close>) keeps the values of
  each of the three fields distinct, and a stored document that shares the \<^verbatim>\<open>isbn\<close>, the
  \<^verbatim>\<open>email\<close> or the \<^verbatim>\<open>codice_fiscale\<close> of a seed document, that field alone, makes the
  batch fail with the error reported. The script itself checks nothing: in a world \<open>x\<close>
  where the two collections are as \<^verbatim>\<open>create_collections\<close> made them, without indexes, and
  hold the seed documents of an earlier run, the same code stores the seed books and
  patrons again, so that \<^verbatim>\<open>isbn\<close>, \<^verbatim>\<open>email\<close> and \<^verbatim>\<open>codice_fiscale\<close> occur twice.
\<close>

theorem unique_indexes_enforced:
  fixes w v x :: world
  assumes "db w = (\<lambda>name. None)" "faults w = []"
    and "faults v = []" "db v ''libri'' = Some cl" "db v ''utenti'' = Some cu"
    and "indexes cl =
           indexes (get_collection (snd (and_then (create_collections w) create_indexes)) ''libri'')"
    and "indexes cu =
           indexes (get_collection (snd (and_then (create_collections w) create_indexes)) ''utenti'')"
    and "faults x = []" "n + 11 \<le> m" "next_oid x = m + 3"
    and "db x ''libri'' =
           Some ((get_collection (snd (create_collections w)) ''libri'')\<lparr>documents := libri_docs n\<rparr>)"
    and "db x ''utenti'' =
           Some ((get_collection (snd (create_collections w)) ''utenti'')\<lparr>documents := utenti_docs n\<rparr>)"
  shows
    "(\<forall>name. map keys (filter unique (indexes (get_collection
          (snd (and_then (create_collections w) create_indexes)) name))) =
        (if name = ''libri'' then [[(''isbn'', ASCENDING)]]
         else if name = ''utenti''
           then [[(''email'', ASCENDING)], [(''codice_fiscale'', ASCENDING)]]
         else []))
     \<and> (distinct (map (\<lambda>d. field d ''isbn'') (documents cl)) \<longrightarrow>
          distinct (map (\<lambda>d. field d ''isbn'')
            (documents (get_collection (snd (load_libri aids v)) ''libri''))))
     \<and> (distinct (map (\<lambda>d. field d ''email'') (documents cu)) \<longrightarrow>
          distinct (map (\<lambda>d. field d ''email'')
            (documents (get_collection (snd (load_utenti lids v)) ''utenti''))))
     \<and> (distinct (map (\<lambda>d. field d ''codice_fiscale'') (documents cu)) \<longrightarrow>
          distinct (map (\<lambda>d. field d ''codice_fiscale'')
            (documents (get_collection (snd (load_utenti lids v)) ''utenti''))))
     \<and> (3 \<le> length aids
          \<and> (\<exists>b\<in>set (documents cl). \<exists>d\<in>set (libri_data aids). field b ''isbn'' = field d ''isbn'')
          \<longrightarrow> fst (load_libri aids v) = Inr ()
              \<and> console (snd (load_libri aids v)) = console v @ [InsertError ''libri''])
     \<and> ((\<exists>b\<in>set (documents cu). \<exists>d\<in>set utenti_data. field b ''email'' = field d ''email'')
          \<longrightarrow> fst (load_utenti lids v) = Inr ()
              \<and> console (snd (load_utenti lids v)) = console v @ [InsertError ''utenti''])
     \<and> ((\<exists>b\<in>set (documents cu). \<exists>d\<in>set utenti_data.
             field b ''codice_fiscale'' = field d ''codice_fiscale'')
          \<longrightarrow> fst (load_utenti lids v) = Inr ()
              \<and> console (snd (load_utenti lids v)) = console v @ [InsertError ''utenti''])
     \<and> documents (get_collection (snd (load_libri [BOid m, BOid (m + 1), BOid (m + 2)] x)) ''libri'')
           = libri_docs n @ libri_docs m
     \<and> documents (get_collection (snd (load_libri [BOid m, BOid (m + 1), BOid (m + 2)] x)) ''utenti'')
           = utenti_docs n @ utenti_docs m
     \<and> \<not> distinct (map (\<lambda>d. field d ''isbn'') (libri_docs n @ libri_docs m))
     \<and> \<not> distinct (map (\<lambda>d. field d ''email'') (utenti_docs n @ utenti_docs m))
     \<and> \<not> distinct (map (\<lambda>d. field d ''codice_fiscale'') (utenti_docs n @ utenti_docs m))"
proof -
  have il: "indexes cl = libri_indexes" and iu: "indexes cu = utenti_indexes"
    using assms(6,7) by (simp_all add: declared_indexes[OF assms(1,2)])
  have isbn: "\<lparr>keys = [(''isbn'', ASCENDING)], unique = True\<rparr> \<in> set (indexes cl)"
    by (simp add: il libri_indexes_def)
  have email: "\<lparr>keys = [(''email'', ASCENDING)], unique = True\<rparr> \<in> set (indexes cu)"
    and cf: "\<lparr>keys = [(''codice_fiscale'', ASCENDING)], unique = True\<rparr> \<in> set (indexes cu)"
    by (simp_all add: iu utenti_indexes_def)
  have A: "\<forall>name. map keys (filter unique (indexes (get_collection
          (snd (and_then (create_collections w) create_indexes)) name))) =
        (if name = ''libri'' then [[(''isbn'', ASCENDING)]]
         else if name = ''utenti''
           then [[(''email'', ASCENDING)], [(''codice_fiscale'', ASCENDING)]]
         else [])"
    by (simp add: declared_indexes[OF assms(1,2)] autori_indexes_def libri_indexes_def
          utenti_indexes_def prestiti_indexes_def new_collection_def)
  have B1: "distinct (map (\<lambda>d. field d ''isbn'') (documents cl)) \<longrightarrow>
          distinct (map (\<lambda>d. field d ''isbn'')
            (documents (get_collection (snd (load_libri aids v)) ''libri'')))"
    using load_libri_distinct[OF assms(4) isbn] by blast
  have B2: "distinct (map (\<lambda>d. field d ''email'') (documents cu)) \<longrightarrow>
          distinct (map (\<lambda>d. field d ''email'')
            (documents (get_collection (snd (load_utenti lids v)) ''utenti'')))"
    using load_utenti_distinct[OF assms(5) email] by blast
  have B3: "distinct (map (\<lambda>d. field d ''codice_fiscale'') (documents cu)) \<longrightarrow>
          distinct (map (\<lambda>d. field d ''codice_fiscale'')
            (documents (get_collection (snd (load_utenti lids v)) ''utenti'')))"
    using load_utenti_distinct[OF assms(5) cf] by blast
  have exc: "is_Exception (if c then BulkWriteError else OverflowError)" for c
    by simp
  have R1: "3 \<le> length aids
          \<and> (\<exists>b\<in>set (documents cl). \<exists>d\<in>set (libri_data aids). field b ''isbn'' = field d ''isbn'')
          \<longrightarrow> fst (load_libri aids v) = Inr ()
              \<and> console (snd (load_libri aids v)) = console v @ [InsertError ''libri'']"
  proof (intro impI, elim conjE bexE)
    fix b d
    assume len: "3 \<le> length aids" and b: "b \<in> set (documents cl)"
      and d: "d \<in> set (libri_data aids)" and eq: "field b ''isbn'' = field d ''isbn''"
    have "fst (insert_many ''libri'' (libri_data aids) v) =
        Inl (if list_all encodable (libri_data aids) then BulkWriteError else OverflowError)"
      using unique_refused[OF assms(3,4) isbn _ d b eq] by simp
    from load_libri_refused[OF len this exc]
    show "fst (load_libri aids v) = Inr ()
              \<and> console (snd (load_libri aids v)) = console v @ [InsertError ''libri'']"
      by simp
  qed
  have R: "fst (load_utenti lids v) = Inr ()
              \<and> console (snd (load_utenti lids v)) = console v @ [InsertError ''utenti'']"
    if ix: "\<lparr>keys = [(k, ASCENDING)], unique = True\<rparr> \<in> set (indexes cu)" and k: "k \<noteq> ''_id''"
      and b: "b \<in> set (documents cu)" and d: "d \<in> set utenti_data" and eq: "field b k = field d k"
    for k b d
  proof -
    have "fst (insert_many ''utenti'' utenti_data v) =
        Inl (if list_all encodable utenti_data then BulkWriteError else OverflowError)"
      using unique_refused[OF assms(3,5) ix k d b eq] by simp
    from load_utenti_refused[OF this exc] show ?thesis by simp
  qed
  have R2: "(\<exists>b\<in>set (documents cu). \<exists>d\<in>set utenti_data. field b ''email'' = field d ''email'')
          \<longrightarrow> fst (load_utenti lids v) = Inr ()
              \<and> console (snd (load_utenti lids v)) = console v @ [InsertError ''utenti'']"
    using R[OF email] by auto
  have R3: "(\<exists>b\<in>set (documents cu). \<exists>d\<in>set utenti_data.
             field b ''codice_fiscale'' = field d ''codice_fiscale'')
          \<longrightarrow> fst (load_utenti lids v) = Inr ()
              \<and> console (snd (load_utenti lids v)) = console v @ [InsertError ''utenti'']"
    using R[OF cf] by auto
  have xl: "db x ''libri'' = Some \<lparr>documents = libri_docs n, validator = Some libri_validator, indexes = []\<rparr>"
    and xu: "db x ''utenti'' = Some \<lparr>documents = utenti_docs n, validator = Some utenti_validator, indexes = []\<rparr>"
    using assms(11,12) by (simp_all add: created_collections[OF assms(1,2)])
  note D = unindexed_load[OF assms(8,9,10) xl xu]
  have E1: "\<not> distinct (map (\<lambda>d. field d ''isbn'') (libri_docs n @ libri_docs m))"
    by (simp add: libri_docs_def libri_data_def field_def)
  have E2: "\<not> distinct (map (\<lambda>d. field d ''email'') (utenti_docs n @ utenti_docs m))"
    by (simp add: utenti_docs_def utenti_data_def field_def)
  have E3: "\<not> distinct (map (\<lambda>d. field d ''codice_fiscale'') (utenti_docs n @ utenti_docs m))"
    by (simp add: utenti_docs_def utenti_data_def field_def)
  from A B1 B2 B3 R1 R2 R3 D E1 E2 E3 show ?thesis
    by (intro conjI)
qed

theorem unique_indexes_enforced_witness:
  "console (snd (load_libri [BOid 11, BOid 12, BOid 13] seeded_world)) = [InsertError ''libri'']
   \<and> console (snd (load_utenti [BOid 14, BOid 15, BOid 16] seeded_world)) = [InsertError ''utenti'']
   \<and> documents (get_collection (snd (load_libri [BOid 11, BOid 12, BOid 13] unindexed_world)) ''libri'')
       = libri_docs 0 @ libri_docs 11
   \<and> documents (get_collection (snd (load_libri [BOid 11, BOid 12, BOid 13] unindexed_world)) ''utenti'')
       = utenti_docs 0 @ utenti_docs 11"
proof -
  let ?cl = "\<lparr>documents = libri_docs 0, validator = Some libri_validator, indexes = libri_indexes\<rparr>"
  let ?cu = "\<lparr>documents = utenti_docs 0, validator = Some utenti_validator, indexes = utenti_indexes\<rparr>"
  have f1: "db empty_world = (\<lambda>name. None)" and f2: "faults empty_world = []"
    by (simp_all add: empty_world_def)
  have f3: "faults seeded_world = []" and f4: "db seeded_world ''libri'' = Some ?cl"
    and f5: "db seeded_world ''utenti'' = Some ?cu"
    by (simp_all add: seeded_world_def empty_world_def biblioteca_at)
  have f6: "indexes ?cl = indexes (get_collection
      (snd (and_then (create_collections empty_world) create_indexes)) ''libri'')"
    and f7: "indexes ?cu = indexes (get_collection
      (snd (and_then (create_collections empty_world) create_indexes)) ''utenti'')"
    by (simp_all add: declared_indexes[OF f1 f2])
  have f8: "faults unindexed_world = []" and f9: "(0::nat) + 11 \<le> 11"
    and f10: "next_oid unindexed_world = 11 + 3"
    by (simp_all add: unindexed_world_def empty_world_def)
  have f11: "db unindexed_world ''libri'' =
      Some ((get_collection (snd (create_collections empty_world)) ''libri'')\<lparr>documents := libri_docs 0\<rparr>)"
    and f12: "db unindexed_world ''utenti'' =
      Some ((get_collection (snd (create_collections empty_world)) ''utenti'')\<lparr>documents := utenti_docs 0\<rparr>)"
  proof -
    have "db unindexed_world ''libri'' =
        Some \<lparr>documents = libri_docs 0, validator = Some libri_validator, indexes = []\<rparr>"
      and "db unindexed_world ''utenti'' =
        Some \<lparr>documents = utenti_docs 0, validator = Some utenti_validator, indexes = []\<rparr>"
      by (simp_all add: unindexed_world_def empty_world_def)
    then show "db unindexed_world ''libri'' =
      Some ((get_collection (snd (create_collections empty_world)) ''libri'')\<lparr>documents := libri_docs 0\<rparr>)"
      and "db unindexed_world ''utenti'' =
      Some ((get_collection (snd (create_collections empty_world)) ''utenti'')\<lparr>documents := utenti_docs 0\<rparr>)"
      by (simp_all add: created_collections[OF f1 f2])
  qed
  note t = unique_indexes_enforced[where aids = "[BOid 11, BOid 12, BOid 13]"
      and lids = "[BOid 14, BOid 15, BOid 16]", OF f1 f2 f3 f4 f5 f6 f7 f8 f9 f10 f11 f12]
  have a1: "3 \<le> length [BOid 11, BOid 12, BOid 13]
      \<and> (\<exists>b\<in>set (documents ?cl). \<exists>d\<in>set (libri_data [BOid 11, BOid 12, BOid 13]).
            field b ''isbn'' = field d ''isbn'')"
    by (simp add: libri_docs_def libri_data_def field_def)
  have a2: "\<exists>b\<in>set (documents ?cu). \<exists>d\<in>set utenti_data. field b ''email'' = field d ''email''"
    by (simp add: utenti_docs_def utenti_data_def field_def)
  have c: "console seeded_world = []"
    by (simp add: seeded_world_def empty_world_def)
  from t a1 a2 c show ?thesis
    by simp
qed

end
